theory Spec2Isabelle
  imports Complex_Main "HOL-Library.Sublist"
begin

section \<open>JavaScript values used by the screens\<close>

text \<open>
  The screens of the application are JavaScript (React Native). The parts of the language
  that the verified functions rely on are written out here: numbers with their three
  non-finite values, JSON values, truthiness, string conversion and \<open>toFixed\<close>.

  A finite number is kept as the exact rational value of the IEEE 754 double; negative zero
  is identified with zero (it prints as \<open>0\<close>, is falsy like zero, and no accumulator of the
  program that starts at \<open>+0\<close> can become \<open>-0\<close>).
\<close>

datatype jsnum = NaN | PInf | NInf | Fin rat

text \<open>Rounding of an exact value to the nearest double, ties to even, overflow to infinity.\<close>

fun log2n :: "nat \<Rightarrow> nat" where
  "log2n n = (if n < 2 then 0 else Suc (log2n (n div 2)))"

declare log2n.simps [simp del]

definition ilog2 :: "rat \<Rightarrow> int" where
  "ilog2 a = (case quotient_of a of (p, q) \<Rightarrow>
     let d = int (log2n (nat p)) - int (log2n (nat q))
     in if 2 powi d \<le> a then d else d - 1)"

definition round_half_even :: "rat \<Rightarrow> int" where
  "round_half_even x = (let f = \<lfloor>x\<rfloor>; d = x - of_int f
     in if d < 1 / 2 then f else if 1 / 2 < d then f + 1 else if even f then f else f + 1)"

definition round64 :: "rat \<Rightarrow> jsnum" where
  "round64 q = (if q = 0 then Fin 0 else
     let a = \<bar>q\<bar>;
         e = max (ilog2 a) (- 1022);
         u = 2 powi (e - 52);
         r = of_int (round_half_even (a / u)) * u
     in if 2 ^ 1024 \<le> r then (if 0 < q then PInf else NInf) else Fin (sgn q * r))"

text \<open>The arithmetic operators \<open>+\<close>, \<open>*\<close>, \<open>/\<close> and the comparison \<open>>\<close> on numbers.\<close>

fun js_add :: "jsnum \<Rightarrow> jsnum \<Rightarrow> jsnum" where
  "js_add NaN _ = NaN"
| "js_add _ NaN = NaN"
| "js_add PInf NInf = NaN"
| "js_add NInf PInf = NaN"
| "js_add PInf _ = PInf"
| "js_add _ PInf = PInf"
| "js_add NInf _ = NInf"
| "js_add _ NInf = NInf"
| "js_add (Fin a) (Fin b) = round64 (a + b)"

definition js_sign :: "jsnum \<Rightarrow> int" where
  "js_sign x = (case x of NaN \<Rightarrow> 0 | PInf \<Rightarrow> 1 | NInf \<Rightarrow> - 1
     | Fin q \<Rightarrow> if 0 < q then 1 else if q < 0 then - 1 else 0)"

definition js_inf :: "int \<Rightarrow> jsnum" where
  "js_inf s = (if 0 < s then PInf else NInf)"

definition js_mul :: "jsnum \<Rightarrow> jsnum \<Rightarrow> jsnum" where
  "js_mul x y = (case (x, y) of
       (Fin a, Fin b) \<Rightarrow> round64 (a * b)
     | _ \<Rightarrow> if x = NaN \<or> y = NaN \<or> js_sign x * js_sign y = 0 then NaN
            else js_inf (js_sign x * js_sign y))"

text \<open>
  Division: with zero and negative zero identified, a finite non-zero value divided by zero
  is given the sign of the dividend (the divisors of the program are positive constants or
  byte counts).
\<close>

definition js_div :: "jsnum \<Rightarrow> jsnum \<Rightarrow> jsnum" where
  "js_div x y = (case (x, y) of
       (NaN, _) \<Rightarrow> NaN
     | (_, NaN) \<Rightarrow> NaN
     | (Fin a, Fin b) \<Rightarrow>
         if b = 0 then (if a = 0 then NaN else js_inf (js_sign x)) else round64 (a / b)
     | (Fin a, _) \<Rightarrow> Fin 0
     | (_, Fin b) \<Rightarrow> js_inf (js_sign x * (if b < 0 then - 1 else 1))
     | _ \<Rightarrow> NaN)"

definition js_gt :: "jsnum \<Rightarrow> jsnum \<Rightarrow> bool" where
  "js_gt x y = (case (x, y) of
       (NaN, _) \<Rightarrow> False
     | (_, NaN) \<Rightarrow> False
     | (Fin a, Fin b) \<Rightarrow> b < a
     | (PInf, PInf) \<Rightarrow> False
     | (PInf, _) \<Rightarrow> True
     | (_, NInf) \<Rightarrow> x \<noteq> NInf
     | _ \<Rightarrow> False)"

definition isNaN :: "jsnum \<Rightarrow> bool" where
  "isNaN x = (x = NaN)"

subsection \<open>JSON values\<close>

datatype jsval =
    Undefined
  | Null
  | JBool bool
  | JNum jsnum
  | JStr string
  | JArr "jsval list"
  | JObj "(string \<times> jsval) list"

text \<open>Truthiness (\<open>ToBoolean\<close>): \<open>undefined\<close>, \<open>null\<close>, \<open>false\<close>, \<open>0\<close>, \<open>NaN\<close> and \<open>""\<close> are falsy.\<close>

fun truthy :: "jsval \<Rightarrow> bool" where
  "truthy Undefined = False"
| "truthy Null = False"
| "truthy (JBool b) = b"
| "truthy (JNum n) = (n \<noteq> NaN \<and> n \<noteq> Fin 0)"
| "truthy (JStr s) = (s \<noteq> [])"
| "truthy (JArr _) = True"
| "truthy (JObj _) = True"

text \<open>
  Reading a property \<open>v.k\<close>. On \<open>undefined\<close> and \<open>null\<close> the read throws a TypeError
  (\<open>None\<close>). An object yields its own property (the last one when the JSON text repeats a
  key). The keys the program reads (\<open>bpm\<close>, \<open>detail\<close>, \<open>message\<close>, \<open>reply\<close>, \<open>carbs\<close>,
  \<open>fat\<close>, \<open>fiber\<close>, \<open>protein\<close>) are no built-in property of a boolean, number, string or
  array, so the read yields \<open>undefined\<close> there.
\<close>

fun get_prop :: "jsval \<Rightarrow> string \<Rightarrow> jsval option" where
  "get_prop Undefined k = None"
| "get_prop Null k = None"
| "get_prop (JObj kvs) k = Some (case map_of (rev kvs) k of None \<Rightarrow> Undefined | Some v \<Rightarrow> v)"
| "get_prop v k = Some Undefined"

subsection \<open>Conversion to strings\<close>

text \<open>
  What the engine supplies and the model leaves open: the shortest round-trip digits that
  \<open>Number::toString\<close> prints for a positive finite number that is not an integer below
  \<open>2^53\<close>, and the message of the TypeError raised by reading a property of \<open>null\<close>.
\<close>

record runtime =
  numToString :: "rat \<Rightarrow> string"
  typeErrorMessage :: string

definition digit_char :: "nat \<Rightarrow> char" where
  "digit_char d = ''0123456789'' ! (d mod 10)"

fun digits :: "nat \<Rightarrow> string" where
  "digits n = (if n < 10 then [digit_char n] else digits (n div 10) @ [digit_char n])"

declare digits.simps [simp del]

definition Number_toString :: "runtime \<Rightarrow> jsnum \<Rightarrow> string" where
  "Number_toString rt x = (case x of
       NaN \<Rightarrow> ''NaN''
     | PInf \<Rightarrow> ''Infinity''
     | NInf \<Rightarrow> ''-Infinity''
     | Fin q \<Rightarrow>
         (if q < 0 then ''-'' else []) @
         (if of_int \<lfloor>q\<rfloor> = q \<and> \<bar>q\<bar> < 2 ^ 53 then digits (nat \<bar>\<lfloor>q\<rfloor>\<bar>)
          else numToString rt \<bar>q\<bar>))"

fun join_comma :: "string list \<Rightarrow> string" where
  "join_comma [] = []"
| "join_comma [s] = s"
| "join_comma (s # t # ss) = s @ '','' @ join_comma (t # ss)"

fun ToString :: "runtime \<Rightarrow> jsval \<Rightarrow> string" where
  "ToString rt Undefined = ''undefined''"
| "ToString rt Null = ''null''"
| "ToString rt (JBool b) = (if b then ''true'' else ''false'')"
| "ToString rt (JNum n) = Number_toString rt n"
| "ToString rt (JStr s) = s"
| "ToString rt (JArr vs) =
     join_comma (map (\<lambda>v. if v = Undefined \<or> v = Null then [] else ToString rt v) vs)"
| "ToString rt (JObj kvs) = ''[object Object]''"

text \<open>
  \<open>Number.prototype.toFixed(f)\<close>: a non-finite number prints as \<open>ToString\<close> does, a value
  of magnitude \<open>10^21\<close> or more prints in \<open>ToString\<close>'s exponent form, and any other value
  prints the integer nearest to \<open>x * 10^f\<close> (the larger one on a tie) with \<open>f\<close> digits after
  the point.
\<close>

definition toFixed :: "runtime \<Rightarrow> nat \<Rightarrow> jsnum \<Rightarrow> string" where
  "toFixed rt f x = (case x of
       Fin q \<Rightarrow>
         (let a = \<bar>q\<bar>; s = (if q < 0 then ''-'' else []) in
          if 10 ^ 21 \<le> a then s @ Number_toString rt (Fin a)
          else
            let m = digits (nat \<lfloor>a * 10 ^ f + 1 / 2\<rfloor>);
                p = replicate (f + 1 - length m) (CHR ''0'') @ m
            in if f = 0 then s @ m
               else s @ take (length p - f) p @ ''.'' @ drop (length p - f) p)
     | _ \<Rightarrow> Number_toString rt x)"

text \<open>\<open>String.prototype.includes\<close>.\<close>

fun str_includes :: "string \<Rightarrow> string \<Rightarrow> bool" where
  "str_includes [] t = (t = [])"
| "str_includes (c # cs) t = (prefix t (c # cs) \<or> str_includes cs t)"

section \<open>What a screen does to the outside, and what the outside answers\<close>

text \<open>
  The handlers of a screen are asynchronous functions. A handler is modelled as a function
  from the component state and from the answers of the outside world (the camera, the file
  system, the network) to the state it leaves and the calls it made, in order. An awaited
  call settles with a value, settles with an error (the \<open>message\<close> of the thrown value, if
  it has one), or never settles; in the last case the handler stays suspended at that
  \<open>await\<close>, in the state it had reached.

  The state cells are set in the order of the \<open>set...\<close> calls, and a handler reads them as
  the previous handler left them: every event is taken to arrive after the render that
  follows the previous one (a handler called twice within one render would read the cells
  of that render both times). Logging is left out.
\<close>

datatype 'a settled = Resolved 'a | Rejected "string option" | Unsettled

datatype upload_type = BINARY_CONTENT | MULTIPART

record upload_options =
  fieldName :: string
  httpMethod :: string
  uploadType :: upload_type
  mimeType :: "string option"

record form_file =
  file_uri :: string
  file_name :: string
  file_type :: string

record fetch_init =
  fetch_method :: string
  headers :: "(string \<times> string) list"
  form_data :: "(string \<times> form_file) list"
  json_body :: "jsval option"
  abort_after_ms :: "nat option"

datatype effect =
    Alert string string
  | RecordAsync "nat option" bool string
  | StopRecording
  | RequestPermission
  | SetTorchMode bool
  | GetInfoAsync string
  | UploadAsync string string upload_options
  | Fetch string fetch_init
  | SetItem string jsval

datatype 'st run = Done 'st "effect list" | Pending 'st "effect list"

fun final_state :: "'st run \<Rightarrow> 'st" where
  "final_state (Done s es) = s"
| "final_state (Pending s es) = s"

fun effects :: "'st run \<Rightarrow> effect list" where
  "effects (Done s es) = es"
| "effects (Pending s es) = es"

fun is_Done :: "'st run \<Rightarrow> bool" where
  "is_Done (Done s es) = True"
| "is_Done (Pending s es) = False"

definition API_URL :: string where
  "API_URL = ''https://hrmppgbackend.onrender.com/analyze_ppg_video''"

text \<open>The \<open>message\<close> of a caught value, and \<open>err.message || fallback\<close>.\<close>

definition message_or :: "string option \<Rightarrow> string \<Rightarrow> string" where
  "message_or m fallback = (case m of None \<Rightarrow> fallback | Some t \<Rightarrow> if t = [] then fallback else t)"

text \<open>
  A React child \<open>{v}\<close> inside a text element: numbers and strings print, \<open>undefined\<close>,
  \<open>null\<close> and booleans print nothing, an array prints its elements, and a plain object
  makes React throw (\<open>None\<close>).
\<close>

fun render_child :: "runtime \<Rightarrow> jsval \<Rightarrow> string option" where
  "render_child rt Undefined = Some []"
| "render_child rt Null = Some []"
| "render_child rt (JBool b) = Some []"
| "render_child rt (JNum n) = Some (Number_toString rt n)"
| "render_child rt (JStr s) = Some s"
| "render_child rt (JArr vs) = map_option concat (those (map (render_child rt) vs))"
| "render_child rt (JObj kvs) = None"

section \<open>Pulse scanner with manual stop (src/unnamed/part_004)\<close>

text \<open>
  The component state is the six \<open>useState\<close> cells. The first three are shared with the
  other versions of the screen, which extend or use the same record.
\<close>

record pulse_state =
  isRecording :: bool
  bpm :: jsval
  error :: "string option"

record screen = pulse_state +
  isProcessing :: bool
  uploadProgress :: string
  showCamera :: bool

definition initial_screen :: screen where
  "initial_screen = \<lparr>isRecording = False, bpm = Null, error = None,
     isProcessing = False, uploadProgress = [], showCamera = True\<rparr>"

text \<open>The file info: \<open>exists\<close>, and \<open>size\<close> in bytes (here \<open>size_bytes\<close>).\<close>

record file_info =
  exists :: bool
  size_bytes :: nat

text \<open>
  The answer of the backend: the HTTP status, the body text, and what \<open>JSON.parse\<close> makes
  of the body (\<open>None\<close> when it throws).
\<close>

record upload_result =
  status :: int
  body :: string
  json :: "jsval option"

record measurement_env =
  recording :: "string option settled"
  fileInfo :: "file_info settled"
  progress :: "(int \<times> int) list"
  upload :: "upload_result settled"

definition show_int :: "int \<Rightarrow> string" where
  "show_int i = (if i < 0 then ''-'' else []) @ digits (nat \<bar>i\<bar>)"

text \<open>The \<open>catch\<close> block of \<open>uploadVideoAndGetBpm\<close>.\<close>

definition upload_catch :: "string option \<Rightarrow> screen \<Rightarrow> effect list \<Rightarrow> screen run" where
  "upload_catch m s es =
     (let msg = message_or m ''Something went wrong''
      in Done (s\<lparr>error := Some msg, uploadProgress := [], isProcessing := False\<rparr>)
           (es @ [Alert ''Error'' msg]))"

definition pulse_upload_options :: upload_options where
  "pulse_upload_options =
     \<lparr>fieldName = ''file'', httpMethod = ''POST'', uploadType = MULTIPART, mimeType = None\<rparr>"

definition progress_text :: "runtime \<Rightarrow> int \<times> int \<Rightarrow> string" where
  "progress_text rt p =
     ''Uploading... '' @
     toFixed rt 0 (js_mul (js_div (Fin (of_int (fst p))) (Fin (of_int (snd p)))) (Fin 100)) @ ''%''"

text \<open>The progress callback overwrites the progress text at every event it receives.\<close>

definition report_progress :: "runtime \<Rightarrow> (int \<times> int) list \<Rightarrow> screen \<Rightarrow> screen" where
  "report_progress rt ps s =
     (if ps = [] then s else s\<lparr>uploadProgress := progress_text rt (last ps)\<rparr>)"

text \<open>What the handler does with a settled upload: parse, check the status, check \<open>bpm\<close>.\<close>

definition handle_response :: "runtime \<Rightarrow> upload_result \<Rightarrow> screen \<Rightarrow> effect list \<Rightarrow> screen run" where
  "handle_response rt r s es =
     (let s1 = s\<lparr>uploadProgress := ''Analyzing heart rate...''\<rparr> in
      case json r of
        None \<Rightarrow>
          upload_catch (Some (''Server returned invalid response: '' @ take 100 (body r))) s1 es
      | Some data \<Rightarrow>
          if status r \<noteq> 200 then
            (case get_prop data ''detail'' of
               None \<Rightarrow> upload_catch (Some (typeErrorMessage rt)) s1 es
             | Some d \<Rightarrow>
                 if truthy d then upload_catch (Some (ToString rt d)) s1 es
                 else (case get_prop data ''message'' of
                         None \<Rightarrow> upload_catch (Some (typeErrorMessage rt)) s1 es
                       | Some m \<Rightarrow>
                           if truthy m then upload_catch (Some (ToString rt m)) s1 es
                           else upload_catch
                                  (Some (''Server error: '' @ show_int (status r))) s1 es))
          else
            (case get_prop data ''bpm'' of
               None \<Rightarrow> upload_catch (Some (typeErrorMessage rt)) s1 es
             | Some b \<Rightarrow>
                 if truthy b then
                   Done (s1\<lparr>bpm := b, uploadProgress := [], isProcessing := False\<rparr>)
                     (es @ [Alert ''Success!'' (''Your heart rate is '' @ ToString rt b @ '' BPM'')])
                 else upload_catch (Some ''No BPM data in response'') s1 es))"

definition uploadVideoAndGetBpm ::
  "runtime \<Rightarrow> measurement_env \<Rightarrow> string \<Rightarrow> screen \<Rightarrow> effect list \<Rightarrow> screen run" where
  "uploadVideoAndGetBpm rt env uri s0 es0 =
     (let s1 = s0\<lparr>error := None, bpm := Null\<rparr>;
          es1 = es0 @ [GetInfoAsync uri] in
      case fileInfo env of
        Unsettled \<Rightarrow> Pending s1 es1
      | Rejected m \<Rightarrow> upload_catch m s1 es1
      | Resolved fi \<Rightarrow>
          if \<not> exists fi then upload_catch (Some ''Video file not found'') s1 es1
          else
            let fileSizeMB = js_div (js_div (Fin (of_nat (size_bytes fi))) (Fin 1024)) (Fin 1024);
                s2 = s1\<lparr>uploadProgress :=
                       (if js_gt fileSizeMB (Fin 50)
                        then ''Uploading large file ('' @ toFixed rt 0 fileSizeMB @
                             ''MB)... This may take a while''
                        else ''Uploading video...'')\<rparr>;
                es2 = es1 @ [UploadAsync API_URL uri pulse_upload_options];
                s3 = report_progress rt (progress env) s2
            in (case upload env of
                  Unsettled \<Rightarrow> Pending s3 es2
                | Rejected m \<Rightarrow> upload_catch m s3 es2
                | Resolved r \<Rightarrow> handle_response rt r s3 es2))"

text \<open>The \<open>catch\<close> and \<open>finally\<close> blocks of \<open>startMeasurement\<close>.\<close>

definition ignored_recording_error :: "string \<Rightarrow> bool" where
  "ignored_recording_error t =
     (t = [] \<or> t = ''Aborted'' \<or> str_includes t ''stopRecording''
      \<or> str_includes t ''Recording already stopped'')"

definition start_catch :: "string option \<Rightarrow> screen \<Rightarrow> effect list \<Rightarrow> screen run" where
  "start_catch m s es =
     (case m of
        None \<Rightarrow> Done (s\<lparr>isRecording := False\<rparr>) es
      | Some t \<Rightarrow>
          if ignored_recording_error t then Done (s\<lparr>isRecording := False\<rparr>) es
          else Done (s\<lparr>error := Some t, isProcessing := False, showCamera := True,
                       isRecording := False\<rparr>)
                 (es @ [Alert ''Error'' t]))"

definition startMeasurement :: "runtime \<Rightarrow> bool \<Rightarrow> measurement_env \<Rightarrow> screen \<Rightarrow> screen run" where
  "startMeasurement rt cameraReady env s =
     (if \<not> cameraReady then Done s [Alert ''Error'' ''Camera not ready yet'']
      else if isRecording s then Done s []
      else
        let s1 = s\<lparr>isRecording := True, error := None, bpm := Null,
                   uploadProgress := [], showCamera := True\<rparr>;
            es1 = [RecordAsync None True ''480p''] in
        case recording env of
          Unsettled \<Rightarrow> Pending s1 es1
        | Rejected m \<Rightarrow> start_catch m s1 es1
        | Resolved video \<Rightarrow>
            (case video of
               None \<Rightarrow> start_catch (Some ''No video captured'') s1 es1
             | Some uri \<Rightarrow>
                 if uri = [] then start_catch (Some ''No video captured'') s1 es1
                 else
                   let s2 = s1\<lparr>showCamera := False, isProcessing := True,
                              uploadProgress := ''Processing video...''\<rparr> in
                   (case uploadVideoAndGetBpm rt env uri s2 es1 of
                      Pending s3 es3 \<Rightarrow> Pending s3 es3
                    | Done s3 es3 \<Rightarrow> Done (s3\<lparr>isRecording := False\<rparr>) es3)))"

definition stopMeasurement :: "bool \<Rightarrow> screen \<Rightarrow> effect list" where
  "stopMeasurement cameraReady s =
     (if \<not> cameraReady then [] else if \<not> isRecording s then [] else [StopRecording])"

definition resetForNewMeasurement :: "screen \<Rightarrow> screen" where
  "resetForNewMeasurement s =
     s\<lparr>bpm := Null, error := None, uploadProgress := [], isProcessing := False,
       showCamera := True\<rparr>"

text \<open>
  What the screen shows once the camera permission is granted: the camera view is mounted
  while \<open>showCamera\<close> holds, with the torch property bound to \<open>isRecording\<close>; the card
  shows one of four contents, and the error block below it.
\<close>

definition enableTorch :: "screen \<Rightarrow> bool" where
  "enableTorch s = isRecording s"

definition torch_on :: "screen \<Rightarrow> bool" where
  "torch_on s = (showCamera s \<and> enableTorch s)"

datatype card_view =
    RecordingCard
  | ProcessingCard string
  | ResultCard string
  | StartCard
  | RenderError

definition card :: "runtime \<Rightarrow> screen \<Rightarrow> card_view" where
  "card rt s =
     (if isRecording s then RecordingCard
      else if isProcessing s then ProcessingCard (uploadProgress s)
      else if bpm s \<noteq> Null then
        (case render_child rt (bpm s) of
           None \<Rightarrow> RenderError
         | Some t \<Rightarrow> ResultCard (t @ '' BPM''))
      else StartCard)"

definition error_block :: "screen \<Rightarrow> string option" where
  "error_block s = (case error s of
       None \<Rightarrow> None
     | Some e \<Rightarrow> if e \<noteq> [] \<and> \<not> isRecording s \<and> \<not> isProcessing s
                then Some (''Error: '' @ e) else None)"

section \<open>Pulse scanner with a fixed duration (src/screens/PulseScanScreen.js)\<close>

text \<open>
  This version keeps three state cells, records for \<open>MEASUREMENT_DURATION_SECONDS\<close> and
  uploads with \<open>fetch\<close>. Its functions carry the suffix \<open>_scr\<close>.
\<close>

definition MEASUREMENT_DURATION_SECONDS :: nat where
  "MEASUREMENT_DURATION_SECONDS = 8"

definition initial_scr :: pulse_state where
  "initial_scr = \<lparr>isRecording = False, bpm = Null, error = None\<rparr>"

text \<open>A \<open>fetch\<close> response: the status, and how \<open>res.json()\<close> settles.\<close>

record fetch_response =
  resp_status :: int
  resp_json :: "jsval settled"

definition ok :: "fetch_response \<Rightarrow> bool" where
  "ok res = (200 \<le> resp_status res \<and> resp_status res \<le> 299)"

record fetch_env =
  camera :: "string option settled"
  fetched :: "fetch_response settled"

text \<open>\<open>uri.split("/").pop()\<close>: the text after the last slash.\<close>

definition last_segment :: "string \<Rightarrow> string" where
  "last_segment uri = rev (takeWhile (\<lambda>c. c \<noteq> CHR ''/'') (rev uri))"

definition upload_catch_scr ::
  "string option \<Rightarrow> pulse_state \<Rightarrow> effect list \<Rightarrow> pulse_state run" where
  "upload_catch_scr m s es =
     (let msg = message_or m ''Something went wrong''
      in Done (s\<lparr>error := Some msg\<rparr>) (es @ [Alert ''Error'' msg]))"

definition upload_request_scr :: "string \<Rightarrow> effect" where
  "upload_request_scr uri =
     (let fileName = (if last_segment uri = [] then ''ppg_video.mp4'' else last_segment uri)
      in Fetch API_URL
           \<lparr>fetch_method = ''POST'',
            headers = [(''Content-Type'', ''multipart/form-data'')],
            form_data = [(''file'',
              \<lparr>file_uri = uri, file_name = fileName, file_type = ''video/mp4''\<rparr>)],
            json_body = None,
            abort_after_ms = None\<rparr>)"

definition uploadVideoAndGetBpm_scr ::
  "runtime \<Rightarrow> fetch_env \<Rightarrow> string \<Rightarrow> pulse_state \<Rightarrow> effect list \<Rightarrow> pulse_state run" where
  "uploadVideoAndGetBpm_scr rt env uri s0 es0 =
     (let s1 = s0\<lparr>error := None, bpm := Null\<rparr>;
          es1 = es0 @ [upload_request_scr uri] in
      case fetched env of
        Unsettled \<Rightarrow> Pending s1 es1
      | Rejected m \<Rightarrow> upload_catch_scr m s1 es1
      | Resolved res \<Rightarrow>
          (case resp_json res of
             Unsettled \<Rightarrow> Pending s1 es1
           | Rejected m \<Rightarrow> upload_catch_scr m s1 es1
           | Resolved data \<Rightarrow>
               if \<not> ok res then
                 (case get_prop data ''detail'' of
                    None \<Rightarrow> upload_catch_scr (Some (typeErrorMessage rt)) s1 es1
                  | Some d \<Rightarrow>
                      if truthy d then upload_catch_scr (Some (ToString rt d)) s1 es1
                      else upload_catch_scr (Some ''Server error while analyzing video'') s1 es1)
               else
                 (case get_prop data ''bpm'' of
                    None \<Rightarrow> upload_catch_scr (Some (typeErrorMessage rt)) s1 es1
                  | Some b \<Rightarrow> Done (s1\<lparr>bpm := b\<rparr>) es1)))"

definition start_catch_scr ::
  "string option \<Rightarrow> pulse_state \<Rightarrow> effect list \<Rightarrow> pulse_state run" where
  "start_catch_scr m s es =
     (case m of
        None \<Rightarrow> Done (s\<lparr>isRecording := False\<rparr>) es
      | Some t \<Rightarrow>
          if str_includes t ''Another recording in progress''
          then Done (s\<lparr>isRecording := False\<rparr>) (es @ [Alert ''Camera Busy'' ''Please try again.''])
          else if t \<noteq> [] \<and> t \<noteq> ''Aborted''
          then Done (s\<lparr>isRecording := False\<rparr>) (es @ [Alert ''Error'' t])
          else Done (s\<lparr>isRecording := False\<rparr>) es)"

definition startMeasurement_scr ::
  "runtime \<Rightarrow> bool \<Rightarrow> fetch_env \<Rightarrow> pulse_state \<Rightarrow> pulse_state run" where
  "startMeasurement_scr rt cameraReady env s =
     (if \<not> cameraReady then Done s [Alert ''Error'' ''Camera not ready yet'']
      else
        let s1 = s\<lparr>isRecording := True, error := None, bpm := Null\<rparr>;
            es1 = [RecordAsync (Some MEASUREMENT_DURATION_SECONDS) True ''480p''] in
        case camera env of
          Unsettled \<Rightarrow> Pending s1 es1
        | Rejected m \<Rightarrow> start_catch_scr m s1 es1
        | Resolved video \<Rightarrow>
            (case video of
               None \<Rightarrow> start_catch_scr (Some ''No video captured'') s1 es1
             | Some uri \<Rightarrow>
                 if uri = [] then start_catch_scr (Some ''No video captured'') s1 es1
                 else
                   (case uploadVideoAndGetBpm_scr rt env uri s1 es1 of
                      Pending s3 es3 \<Rightarrow> Pending s3 es3
                    | Done s3 es3 \<Rightarrow> Done (s3\<lparr>isRecording := False\<rparr>) es3)))"

text \<open>
  The camera view is always mounted and its torch property is the constant \<open>true\<close>
  (the source comments: torch on while previewing/recording). The result block is shown
  when \<open>bpm !== null\<close> and the screen is not recording.
\<close>

definition enableTorch_scr :: "pulse_state \<Rightarrow> bool" where
  "enableTorch_scr s = True"

definition result_block_scr :: "runtime \<Rightarrow> pulse_state \<Rightarrow> card_view option" where
  "result_block_scr rt s =
     (if bpm s \<noteq> Null \<and> \<not> isRecording s then
        (case render_child rt (bpm s) of
           None \<Rightarrow> Some RenderError
         | Some t \<Rightarrow> Some (ResultCard (t @ '' BPM'')))
      else None)"

definition error_block_scr :: "pulse_state \<Rightarrow> string option" where
  "error_block_scr s = (case error s of
       None \<Rightarrow> None
     | Some e \<Rightarrow> if e \<noteq> [] \<and> \<not> isRecording s then Some (''Error: '' @ e) else None)"

section \<open>Pulse scanner with an upload flag (second screen of src/unnamed/part_005)\<close>

definition RECORD_DURATION :: nat where
  "RECORD_DURATION = 8"

record scan_state = pulse_state +
  isUploading :: bool

definition initial_scan :: scan_state where
  "initial_scan = \<lparr>isRecording = False, bpm = Null, error = None, isUploading = False\<rparr>"

record scan_env =
  granted :: bool
  request :: "bool settled"
  scan_camera :: "string option settled"
  scan_fetched :: "fetch_response settled"

definition upload_catch_scan ::
  "string option \<Rightarrow> scan_state \<Rightarrow> effect list \<Rightarrow> scan_state run" where
  "upload_catch_scan m s es =
     (let msg = message_or m ''Failed to analyze video''
      in Done (s\<lparr>isUploading := False, error := Some msg\<rparr>) (es @ [Alert ''Error'' msg]))"

definition upload_request_scan :: "string \<Rightarrow> effect" where
  "upload_request_scan uri =
     Fetch API_URL
       \<lparr>fetch_method = ''POST'',
        headers = [(''Accept'', ''application/json'')],
        form_data = [(''file'',
          \<lparr>file_uri = uri, file_name = ''ppg_clip.mp4'', file_type = ''video/mp4''\<rparr>)],
        json_body = None,
        abort_after_ms = None\<rparr>"

definition uploadVideo ::
  "runtime \<Rightarrow> scan_env \<Rightarrow> string \<Rightarrow> scan_state \<Rightarrow> effect list \<Rightarrow> scan_state run" where
  "uploadVideo rt env uri s0 es0 =
     (let s1 = s0\<lparr>isUploading := True\<rparr>;
          es1 = es0 @ [upload_request_scan uri] in
      case scan_fetched env of
        Unsettled \<Rightarrow> Pending s1 es1
      | Rejected m \<Rightarrow> upload_catch_scan m s1 es1
      | Resolved res \<Rightarrow>
          (case resp_json res of
             Unsettled \<Rightarrow> Pending s1 es1
           | Rejected m \<Rightarrow> upload_catch_scan m s1 es1
           | Resolved data \<Rightarrow>
               if \<not> ok res then
                 (case get_prop data ''detail'' of
                    None \<Rightarrow> upload_catch_scan (Some (typeErrorMessage rt)) s1 es1
                  | Some d \<Rightarrow>
                      if truthy d then upload_catch_scan (Some (ToString rt d)) s1 es1
                      else upload_catch_scan (Some ''Unable to calculate heart rate'') s1 es1)
               else
                 (case get_prop data ''bpm'' of
                    None \<Rightarrow> upload_catch_scan (Some (typeErrorMessage rt)) s1 es1
                  | Some b \<Rightarrow>
                      Done (s1\<lparr>bpm := b, isUploading := False\<rparr>)
                        (es1 @ [Alert ''Measurement complete''
                                  (''Your heart rate is '' @ ToString rt b @ '' BPM'')]))))"

definition scan_catch :: "string option \<Rightarrow> scan_state \<Rightarrow> effect list \<Rightarrow> scan_state run" where
  "scan_catch m s es =
     (let msg = message_or m ''Recording failed''
      in Done (s\<lparr>isRecording := False, isUploading := False, error := Some msg\<rparr>)
           (es @ [Alert ''Error'' msg]))"

definition record_and_upload ::
  "runtime \<Rightarrow> bool \<Rightarrow> scan_env \<Rightarrow> scan_state \<Rightarrow> effect list \<Rightarrow> scan_state run" where
  "record_and_upload rt cameraReady env s es0 =
     (if \<not> cameraReady
      then Done s (es0 @ [Alert ''Camera not ready'' ''Please wait a moment and try again.''])
      else
        let s1 = s\<lparr>error := None, bpm := Null, isRecording := True\<rparr>;
            es1 = es0 @ [RecordAsync (Some RECORD_DURATION) True ''480p''] in
        case scan_camera env of
          Unsettled \<Rightarrow> Pending s1 es1
        | Rejected m \<Rightarrow> scan_catch m s1 es1
        | Resolved video \<Rightarrow>
            (let s2 = s1\<lparr>isRecording := False\<rparr> in
             case video of
               None \<Rightarrow> scan_catch (Some ''No video captured.'') s2 es1
             | Some uri \<Rightarrow>
                 if uri = [] then scan_catch (Some ''No video captured.'') s2 es1
                 else uploadVideo rt env uri s2 es1))"

text \<open>
  \<open>handleStartScan\<close> first asks for the camera permission when it is not granted; the
  request is awaited outside the \<open>try\<close>, so a rejected request ends the handler with the
  state untouched.
\<close>

definition handleStartScan ::
  "runtime \<Rightarrow> bool \<Rightarrow> scan_env \<Rightarrow> scan_state \<Rightarrow> scan_state run" where
  "handleStartScan rt cameraReady env s =
     (if granted env then record_and_upload rt cameraReady env s []
      else
        (case request env of
           Unsettled \<Rightarrow> Pending s [RequestPermission]
         | Rejected m \<Rightarrow> Done s [RequestPermission]
         | Resolved g \<Rightarrow>
             if \<not> g
             then Done s [RequestPermission,
                    Alert ''Permission required''
                      ''Camera permission is needed to measure your pulse.'']
             else record_and_upload rt cameraReady env s [RequestPermission]))"

text \<open>The handler of the Measure Again button, and the torch property of the camera view.\<close>

definition measure_again :: "scan_state \<Rightarrow> scan_state" where
  "measure_again s = s\<lparr>bpm := Null, error := None\<rparr>"

definition enableTorch_scan :: "scan_state \<Rightarrow> bool" where
  "enableTorch_scan s = isRecording s"

definition result_block_scan :: "runtime \<Rightarrow> scan_state \<Rightarrow> card_view option" where
  "result_block_scan rt s =
     (if \<not> isRecording s \<and> \<not> isUploading s \<and> bpm s \<noteq> Null then
        (case render_child rt (bpm s) of
           None \<Rightarrow> Some RenderError
         | Some t \<Rightarrow> Some (ResultCard (t @ '' BPM'')))
      else None)"

section \<open>Pulse screen with local history (first screen of src/unnamed/part_005)\<close>

text \<open>
  This screen computes a value from sampled numbers and keeps a history per date. Its world
  is the component state (\<open>scanning\<close>, the value \<open>heartRate\<close> of the \<open>bpm\<close> cell,
  \<open>history\<close>), the two refs (\<open>redValues\<close>, \<open>startTime\<close>), the torch of the camera, the
  interval timer, and the persistent store under the key \<open>heartRateHistory\<close>.
\<close>

record pulse_world =
  scanning :: bool
  heartRate :: "jsnum option"
  history :: "string \<rightharpoonup> jsnum list"
  redValues :: "jsnum list"
  startTime :: int
  torch :: bool
  interval :: bool
  heartRateHistory :: "(string \<rightharpoonup> jsnum list) option"

text \<open>
  \<open>saveBpm\<close> copies the history, creates today's list when it is missing, pushes the new
  value at its end, stores the copy in the state and writes it to the store; \<open>write_ok\<close>
  tells whether the write succeeds (nothing handles a failing write: the state keeps the
  update and the store keeps what it had).
\<close>

definition saveBpm :: "bool \<Rightarrow> string \<Rightarrow> jsnum \<Rightarrow> pulse_world \<Rightarrow> pulse_world" where
  "saveBpm write_ok today newBpm w =
     (let updatedHistory =
            (history w)(today \<mapsto> (case history w today of None \<Rightarrow> [] | Some xs \<Rightarrow> xs) @ [newBpm]);
          w1 = w\<lparr>history := updatedHistory\<rparr>
      in if write_ok then w1\<lparr>heartRateHistory := Some updatedHistory\<rparr> else w1)"

fun count_peaks :: "jsnum list \<Rightarrow> nat" where
  "count_peaks (a # b # c # rest) =
     (if js_gt b a \<and> js_gt b c \<and> js_gt b (Fin 200) then 1 else 0) + count_peaks (b # c # rest)"
| "count_peaks _ = 0"

definition js_floor :: "jsnum \<Rightarrow> jsnum" where
  "js_floor x = (case x of Fin q \<Rightarrow> Fin (of_int \<lfloor>q\<rfloor>) | _ \<Rightarrow> x)"

definition calculateBpm :: "jsnum list \<Rightarrow> jsnum" where
  "calculateBpm values =
     (let peaks = count_peaks values;
          durationInSec = Fin 20;
          b = js_floor (js_mul (js_div (Fin (of_nat peaks)) durationInSec) (Fin 60))
      in if js_gt (Fin 30) b \<or> js_gt b (Fin 180) then Fin 70 else b)"

definition startPPGScan :: "bool \<Rightarrow> int \<Rightarrow> pulse_world \<Rightarrow> pulse_world" where
  "startPPGScan cameraReady now w =
     (if \<not> cameraReady then w
      else w\<lparr>scanning := True, redValues := [], startTime := now, torch := True,
             interval := True\<rparr>)"

text \<open>
  One run of the interval callback: \<open>photo_ok\<close> tells whether \<open>takePictureAsync\<close> settles
  with a picture (when it throws, the callback ends there), \<open>rnd\<close> is the value of
  \<open>Math.random()\<close>, \<open>now\<close> the clock and \<open>today\<close> the date text when the callback
  resumes, and \<open>write_ok\<close> whether the write of \<open>saveBpm\<close> succeeds.
\<close>

definition scan_tick ::
  "bool \<Rightarrow> bool \<Rightarrow> jsnum \<Rightarrow> int \<Rightarrow> string \<Rightarrow> bool \<Rightarrow> pulse_world \<Rightarrow> pulse_world" where
  "scan_tick cameraReady photo_ok rnd now today write_ok w =
     (if \<not> cameraReady then w
      else if \<not> photo_ok then w
      else
        let w1 = w\<lparr>redValues := redValues w @ [js_mul rnd (Fin 255)]\<rparr> in
        if now - startTime w1 > 20000 then
          (let calculatedBpm = calculateBpm (redValues w1);
               w2 = w1\<lparr>interval := False, torch := False, heartRate := Some calculatedBpm\<rparr>
           in (saveBpm write_ok today calculatedBpm w2)\<lparr>scanning := False\<rparr>)
        else w1)"

section \<open>Chat screen (src/screens/AyurvedaBotScreen.js)\<close>

definition CHAT_URL :: string where
  "CHAT_URL = ''https://ayurveda-bot-backend.onrender.com/chat''"

record chat_message =
  role :: string
  content :: jsval

record chat_state =
  input :: string
  messages :: "chat_message list"
  loading :: bool

text \<open>
  The network call of the chat: \<open>chat_fetched\<close> is how the \<open>fetch\<close> would settle by
  itself and \<open>settles_at\<close> the time in milliseconds it takes to do so. A timer aborts the
  request 50000 ms after it was started, which makes the \<open>fetch\<close> throw (a request that
  would settle at exactly 50000 ms is taken as aborted); the timer is cleared as soon as
  the \<open>fetch\<close> has settled, before the body is read. \<open>trim\<close> removes the white space of
  the Latin-1 range.
\<close>

record chat_env =
  chat_fetched :: "fetch_response settled"
  settles_at :: nat

definition warning_sign :: string where
  "warning_sign = [CHR 0xE2, CHR 0x9A, CHR 0xA0, CHR 0xEF, CHR 0xB8, CHR 0x8F]"

definition js_whitespace :: "char \<Rightarrow> bool" where
  "js_whitespace c = (of_char c \<in> {9, 10, 11, 12, 13, 32, 160 :: nat})"

definition trim :: "string \<Rightarrow> string" where
  "trim t = rev (dropWhile js_whitespace (rev (dropWhile js_whitespace t)))"

definition message_json :: "chat_message \<Rightarrow> jsval" where
  "message_json m = JObj [(''role'', JStr (role m)), (''content'', content m)]"

definition chat_request :: "chat_message list \<Rightarrow> effect" where
  "chat_request ms =
     Fetch CHAT_URL
       \<lparr>fetch_method = ''POST'',
        headers = [(''Content-Type'', ''application/json'')],
        form_data = [],
        json_body = Some (JObj [(''messages'', JArr (map message_json ms))]),
        abort_after_ms = Some 50000\<rparr>"

definition assistant_says :: "jsval \<Rightarrow> chat_state \<Rightarrow> chat_state" where
  "assistant_says c s = s\<lparr>messages := messages s @ [\<lparr>role = ''assistant'', content = c\<rparr>]\<rparr>"

definition chat_failed :: "chat_state \<Rightarrow> effect list \<Rightarrow> chat_state run" where
  "chat_failed s es =
     Done ((assistant_says (JStr (warning_sign @ '' Failed to connect to the bot.'')) s)
             \<lparr>loading := False\<rparr>) es"

definition aborted :: "chat_env \<Rightarrow> bool" where
  "aborted env = (chat_fetched env = Unsettled \<or> 50000 \<le> settles_at env)"

definition sendMessage :: "chat_env \<Rightarrow> chat_state \<Rightarrow> chat_state run" where
  "sendMessage env s =
     (if trim (input s) = [] \<or> loading s then Done s []
      else
        let userMessage = \<lparr>role = ''user'', content = JStr (input s)\<rparr>;
            updatedMessages = messages s @ [userMessage];
            s1 = s\<lparr>messages := updatedMessages, input := [], loading := True\<rparr>;
            es1 = [chat_request updatedMessages] in
        if aborted env then chat_failed s1 es1
        else
          (case chat_fetched env of
             Unsettled \<Rightarrow> chat_failed s1 es1
           | Rejected m \<Rightarrow> chat_failed s1 es1
           | Resolved res \<Rightarrow>
               if \<not> ok res then chat_failed s1 es1
               else
                 (case resp_json res of
                    Unsettled \<Rightarrow> Pending s1 es1
                  | Rejected m \<Rightarrow> chat_failed s1 es1
                  | Resolved data \<Rightarrow>
                      (case get_prop data ''reply'' of
                         None \<Rightarrow> chat_failed s1 es1
                       | Some r \<Rightarrow>
                           if truthy r
                           then Done ((assistant_says r s1)\<lparr>loading := False\<rparr>) es1
                           else Done ((assistant_says
                                        (JStr (warning_sign @ '' No reply from server.'')) s1)
                                       \<lparr>loading := False\<rparr>) es1))))"

section \<open>Food scanner: nutrient totals (src/unnamed/part_002)\<close>

text \<open>\<open>String(str).replace(/[^\d.-]/g, "")\<close> keeps the digits, the points and the minus signs.\<close>

definition keep_numeric :: "string \<Rightarrow> string" where
  "keep_numeric t = filter (\<lambda>c. c \<in> set ''0123456789.-'') t"

definition is_digit :: "char \<Rightarrow> bool" where
  "is_digit c = (c \<in> set ''0123456789'')"

definition digit_value :: "char \<Rightarrow> nat" where
  "digit_value c = of_char c - 48"

definition digits_value :: "string \<Rightarrow> nat" where
  "digits_value ds = foldl (\<lambda>n c. 10 * n + digit_value c) 0 ds"

text \<open>
  \<open>parseFloat\<close> on a text made of digits, points and minus signs (what \<open>keep_numeric\<close>
  leaves): an optional minus sign, then the longest run of digits with at most one point in
  or before it (\<open>numeric_prefix\<close> gives the sign, the digits before the point and the
  digits after it); \<open>NaN\<close> when no digit is found there. The decimal value is rounded to
  the nearest double.
\<close>

definition numeric_prefix :: "string \<Rightarrow> bool \<times> string \<times> string" where
  "numeric_prefix t =
     (let neg = (t \<noteq> [] \<and> hd t = CHR ''-'');
          r = (if neg then tl t else t);
          ip = takeWhile is_digit r;
          r1 = dropWhile is_digit r;
          fp = (if r1 \<noteq> [] \<and> hd r1 = CHR ''.'' then takeWhile is_digit (tl r1) else [])
      in (neg, ip, fp))"

definition decimal_value :: "bool \<Rightarrow> string \<Rightarrow> string \<Rightarrow> rat" where
  "decimal_value neg ip fp =
     (let v = of_nat (digits_value (ip @ fp)) / 10 ^ length fp in if neg then - v else v)"

definition parseFloat :: "string \<Rightarrow> jsnum" where
  "parseFloat t =
     (case numeric_prefix t of (neg, ip, fp) \<Rightarrow>
        if ip = [] \<and> fp = [] then NaN else round64 (decimal_value neg ip fp))"

definition parseGrams :: "runtime \<Rightarrow> jsval \<Rightarrow> jsnum" where
  "parseGrams rt str =
     (if \<not> truthy str \<and> str \<noteq> JNum (Fin 0) then Fin 0
      else
        let cleaned = keep_numeric (ToString rt str);
            n = parseFloat cleaned
        in if isNaN n then Fin 0 else n)"

record 'a nutrients =
  carbs :: 'a
  fat :: 'a
  fiber :: 'a
  protein :: 'a

text \<open>
  The body of the \<open>forEach\<close>. Reading \<open>f.carbs\<close> throws when the array element is \<open>null\<close>
  (\<open>None\<close>); nothing catches it.
\<close>

definition add_food :: "runtime \<Rightarrow> jsnum nutrients \<Rightarrow> jsval \<Rightarrow> jsnum nutrients option" where
  "add_food rt totals f =
     Option.bind (get_prop f ''carbs'') (\<lambda>c.
     Option.bind (get_prop f ''fat'') (\<lambda>a.
     Option.bind (get_prop f ''fiber'') (\<lambda>b.
     Option.bind (get_prop f ''protein'') (\<lambda>p.
       Some \<lparr>carbs = js_add (carbs totals) (parseGrams rt c),
             fat = js_add (fat totals) (parseGrams rt a),
             fiber = js_add (fiber totals) (parseGrams rt b),
             protein = js_add (protein totals) (parseGrams rt p)\<rparr>))))"

fun sum_foods :: "runtime \<Rightarrow> jsnum nutrients \<Rightarrow> jsval list \<Rightarrow> jsnum nutrients option" where
  "sum_foods rt totals [] = Some totals"
| "sum_foods rt totals (f # fs) =
     (case add_food rt totals f of None \<Rightarrow> None | Some t \<Rightarrow> sum_foods rt t fs)"

definition zero_totals :: "jsnum nutrients" where
  "zero_totals = \<lparr>carbs = Fin 0, fat = Fin 0, fiber = Fin 0, protein = Fin 0\<rparr>"

definition fmt :: "runtime \<Rightarrow> jsnum \<Rightarrow> string" where
  "fmt rt n = toFixed rt 2 n @ ''g''"

definition computeTotals :: "runtime \<Rightarrow> jsval list \<Rightarrow> string nutrients option" where
  "computeTotals rt foods =
     (case sum_foods rt zero_totals foods of
        None \<Rightarrow> None
      | Some totals \<Rightarrow>
          Some \<lparr>carbs = fmt rt (carbs totals), fat = fmt rt (fat totals),
                fiber = fmt rt (fiber totals), protein = fmt rt (protein totals)\<rparr>)"

text \<open>Finite numbers, and array elements all four of whose nutrient fields parse to one.\<close>

definition finite_number :: "jsnum \<Rightarrow> bool" where
  "finite_number x = (case x of Fin q \<Rightarrow> True | _ \<Rightarrow> False)"

definition finite_fields :: "runtime \<Rightarrow> jsval \<Rightarrow> bool" where
  "finite_fields rt f =
     list_all (\<lambda>k. case get_prop f k of None \<Rightarrow> False | Some v \<Rightarrow> finite_number (parseGrams rt v))
       [''carbs'', ''fat'', ''fiber'', ''protein'']"

definition no_NaN :: "jsnum nutrients \<Rightarrow> bool" where
  "no_NaN t = (carbs t \<noteq> NaN \<and> fat t \<noteq> NaN \<and> fiber t \<noteq> NaN \<and> protein t \<noteq> NaN)"

text \<open>A run of 400 nines: a decimal text beyond the range of a double.\<close>

definition long_digits :: string where
  "long_digits = replicate 400 (CHR ''9'')"

section \<open>Barcode scanner: the saved-scans log (src/screens/BarcodeScannerNative.js)\<close>

text \<open>
  \<open>saveResult\<close> puts the new item in front of the saved array, keeps the first 50 entries,
  stores the array in the component state and writes it to the persistent store under the
  key \<open>SAVED_BARCODES\<close>. A failing write is caught and only logged: the state then holds
  the new array and the store keeps what it had.
\<close>

record 'a barcode_world =
  savedFoods :: "'a list"
  SAVED_BARCODES :: "'a list option"

definition slice0 :: "nat \<Rightarrow> 'a list \<Rightarrow> 'a list" where
  "slice0 n xs = take n xs"

definition saveResult :: "bool \<Rightarrow> 'a \<Rightarrow> 'a barcode_world \<Rightarrow> 'a barcode_world" where
  "saveResult write_ok item w =
     (let newArr = slice0 50 (item # savedFoods w);
          w1 = w\<lparr>savedFoods := newArr\<rparr>
      in if write_ok then w1\<lparr>SAVED_BARCODES := Some newArr\<rparr> else w1)"

section \<open>Observations on effect lists, and sample inputs\<close>

fun is_capture :: "effect \<Rightarrow> bool" where
  "is_capture (RecordAsync d m q) = True"
| "is_capture _ = False"

fun is_network :: "effect \<Rightarrow> bool" where
  "is_network (UploadAsync url uri opts) = True"
| "is_network (Fetch url init) = True"
| "is_network _ = False"

fun is_store_write :: "effect \<Rightarrow> bool" where
  "is_store_write (SetItem k v) = True"
| "is_store_write _ = False"

text \<open>Concrete inputs at which the statements below are instantiated.\<close>

definition sample_runtime :: runtime where
  "sample_runtime =
     \<lparr>numToString = (\<lambda>q. ''1.5''), typeErrorMessage = ''Cannot read property of null''\<rparr>"

definition sample_env :: measurement_env where
  "sample_env =
     \<lparr>recording = Resolved (Some ''file:///cache/clip.mp4''),
      fileInfo = Resolved \<lparr>exists = True, size_bytes = 1048576\<rparr>,
      progress = [(1, 2), (2, 2)],
      upload = Resolved \<lparr>status = 200, body = ''{'' @ [CHR 0x22] @ ''bpm'' @ [CHR 0x22] @ '': 72}'',
                 json = Some (JObj [(''bpm'', JNum (Fin 72))])\<rparr>\<rparr>"

definition sample_scan_env :: scan_env where
  "sample_scan_env =
     \<lparr>granted = True, request = Unsettled, scan_camera = Unsettled, scan_fetched = Unsettled\<rparr>"

definition sample_world :: pulse_world where
  "sample_world =
     \<lparr>scanning = False, heartRate = None, history = Map.empty, redValues = [], startTime = 0,
      torch = False, interval = False, heartRateHistory = None\<rparr>"

definition zero_bpm_result :: upload_result where
  "zero_bpm_result = \<lparr>status = 200, body = [], json = Some (JObj [(''bpm'', JNum (Fin 0))])\<rparr>"

section \<open>Auxiliary facts\<close>

subsection \<open>The manual-stop pulse scanner\<close>

lemma upload_catch_simps [simp]:
  "is_Done (upload_catch m s es)"
  "final_state (upload_catch m s es) =
     s\<lparr>error := Some (message_or m ''Something went wrong''), uploadProgress := [],
       isProcessing := False\<rparr>"
  "effects (upload_catch m s es) = es @ [Alert ''Error'' (message_or m ''Something went wrong'')]"
  by (simp_all add: upload_catch_def Let_def)

lemma handle_response_Done [simp]: "is_Done (handle_response rt r s es)"
  by (simp add: handle_response_def Let_def split: option.splits)

lemma handle_response_frame:
  "isRecording (final_state (handle_response rt r s es)) = isRecording s"
  "showCamera (final_state (handle_response rt r s es)) = showCamera s"
  "isProcessing (final_state (handle_response rt r s es)) = False"
  "uploadProgress (final_state (handle_response rt r s es)) = []"
  by (simp_all add: handle_response_def Let_def split: option.splits)

lemma handle_response_effects:
  "\<exists>t m. effects (handle_response rt r s es) = es @ [Alert t m]"
  by (simp add: handle_response_def Let_def split: option.splits)

lemma report_progress_frame [simp]:
  "isRecording (report_progress rt ps s) = isRecording s"
  "showCamera (report_progress rt ps s) = showCamera s"
  "isProcessing (report_progress rt ps s) = isProcessing s"
  "bpm (report_progress rt ps s) = bpm s"
  "error (report_progress rt ps s) = error s"
  by (simp_all add: report_progress_def)

lemma upload_frame:
  "isRecording (final_state (uploadVideoAndGetBpm rt env uri s es)) = isRecording s"
  "showCamera (final_state (uploadVideoAndGetBpm rt env uri s es)) = showCamera s"
  by (simp_all add: uploadVideoAndGetBpm_def Let_def handle_response_frame
        split: settled.splits)

lemma upload_Done_idle:
  "is_Done (uploadVideoAndGetBpm rt env uri s es) \<Longrightarrow>
     isProcessing (final_state (uploadVideoAndGetBpm rt env uri s es)) = False
     \<and> uploadProgress (final_state (uploadVideoAndGetBpm rt env uri s es)) = []"
  by (cases "fileInfo env"; cases "upload env")
     (auto simp: uploadVideoAndGetBpm_def Let_def handle_response_frame split: if_splits)

lemma upload_Pending_processing:
  "\<not> is_Done (uploadVideoAndGetBpm rt env uri s es) \<Longrightarrow>
     isProcessing (final_state (uploadVideoAndGetBpm rt env uri s es)) = isProcessing s"
  by (cases "fileInfo env"; cases "upload env")
     (auto simp: uploadVideoAndGetBpm_def Let_def split: if_splits)

lemma start_Done_not_recording:
  assumes "\<not> isRecording s" and "is_Done (startMeasurement rt c env s)"
  shows "\<not> isRecording (final_state (startMeasurement rt c env s))"
  using assms
  by (cases "recording env")
     (auto simp: startMeasurement_def start_catch_def Let_def
           split: if_splits option.splits run.splits)

lemma start_Pending_recording:
  assumes "\<not> is_Done (startMeasurement rt c env s)"
  shows "isRecording (final_state (startMeasurement rt c env s))"
proof -
  have up: "\<And>uri s' es s3 es3. uploadVideoAndGetBpm rt env uri s' es = Pending s3 es3
              \<Longrightarrow> isRecording s3 = isRecording s'"
    using upload_frame(1) by (metis final_state.simps(2))
  show ?thesis
    using assms
    by (cases "recording env")
       (auto simp: startMeasurement_def start_catch_def Let_def up
             split: if_splits option.splits run.splits)
qed

lemma reset_eq_initial: "(resetForNewMeasurement s = initial_screen) = (\<not> isRecording s)"
  by (cases s) (auto simp: resetForNewMeasurement_def initial_screen_def)

lemma handle_response_filter:
  "filter is_capture (effects (handle_response rt r s es)) = filter is_capture es"
  "filter is_network (effects (handle_response rt r s es)) = filter is_network es"
  "filter is_store_write (effects (handle_response rt r s es)) = filter is_store_write es"
  using handle_response_effects [of rt r s es] by auto

lemma upload_effects_filter:
  "filter is_capture (effects (uploadVideoAndGetBpm rt env uri s es)) = filter is_capture es"
  "length (filter is_network (effects (uploadVideoAndGetBpm rt env uri s es)))
     \<le> Suc (length (filter is_network es))"
  "filter is_store_write (effects (uploadVideoAndGetBpm rt env uri s es)) = filter is_store_write es"
  by (cases "fileInfo env"; cases "upload env";
      simp add: uploadVideoAndGetBpm_def Let_def handle_response_filter)+

lemma start_catch_filter:
  "filter is_capture (effects (start_catch m s es)) = filter is_capture es"
  "filter is_network (effects (start_catch m s es)) = filter is_network es"
  "filter is_store_write (effects (start_catch m s es)) = filter is_store_write es"
  by (simp_all add: start_catch_def split: option.splits)

lemma run_effects_case:
  "effects (case r of Pending s3 es3 \<Rightarrow> Pending s3 es3 | Done s3 es3 \<Rightarrow> Done (f s3) es3) = effects r"
  by (cases r) simp_all

lemma start_effects_filter:
  "length (filter is_capture (effects (startMeasurement rt c env s))) \<le> 1"
  "length (filter is_network (effects (startMeasurement rt c env s))) \<le> 1"
  "filter is_store_write (effects (startMeasurement rt c env s)) = []"
  using upload_effects_filter(2) [of rt env _ _ "[RecordAsync None True ''480p'']"]
  by (cases "recording env";
      simp add: startMeasurement_def Let_def start_catch_filter run_effects_case
                upload_effects_filter(1,3) split: option.splits)+


lemma digits_72: "digits 72 = ''72''"
  by (simp add: digits.simps digit_char_def)

lemma success_run:
  assumes rec: "recording env = Resolved (Some uri)" "uri \<noteq> []"
    and fi: "fileInfo env = Resolved fi" "exists fi"
    and up: "upload env = Resolved r" "status r = 200" "json r = Some data"
    and b: "get_prop data ''bpm'' = Some v" "truthy v"
    and s: "\<not> isRecording s"
  shows "\<exists>es. startMeasurement rt True env s =
           Done \<lparr>isRecording = False, bpm = v, error = None, isProcessing = False,
                 uploadProgress = [], showCamera = False\<rparr>
                (es @ [Alert ''Success!'' (''Your heart rate is '' @ ToString rt v @ '' BPM'')])"
  using assms
  by (cases s)
     (simp add: startMeasurement_def uploadVideoAndGetBpm_def handle_response_def Let_def
        report_progress_def)

lemma failed_run:
  assumes rec: "recording env = Resolved (Some uri)" "uri \<noteq> []"
    and fi: "fileInfo env = Resolved fi" "exists fi"
    and up: "upload env = Resolved r" "status r = 200" "json r = Some data"
    and b: "get_prop data ''bpm'' = Some v" "\<not> truthy v"
    and s: "\<not> isRecording s"
  shows "\<exists>es. startMeasurement rt True env s =
           Done \<lparr>isRecording = False, bpm = Null, error = Some ''No BPM data in response'',
                 isProcessing = False, uploadProgress = [], showCamera = False\<rparr>
                (es @ [Alert ''Error'' ''No BPM data in response''])"
  using assms
  by (cases s)
     (simp add: startMeasurement_def uploadVideoAndGetBpm_def handle_response_def Let_def
        report_progress_def upload_catch_def message_or_def)


subsection \<open>The pulse scanner with an upload flag\<close>

lemma upload_catch_scan_simps [simp]:
  "is_Done (upload_catch_scan m s es)"
  "isRecording (final_state (upload_catch_scan m s es)) = isRecording s"
  "isUploading (final_state (upload_catch_scan m s es)) = False"
  by (simp_all add: upload_catch_scan_def Let_def)

lemma scan_catch_simps [simp]:
  "is_Done (scan_catch m s es)"
  "isRecording (final_state (scan_catch m s es)) = False"
  "isUploading (final_state (scan_catch m s es)) = False"
  by (simp_all add: scan_catch_def Let_def)

lemma uploadVideo_frame:
  "isRecording (final_state (uploadVideo rt env uri s es)) = isRecording s"
  "is_Done (uploadVideo rt env uri s es) \<Longrightarrow> \<not> isUploading (final_state (uploadVideo rt env uri s es))"
  by (cases "scan_fetched env";
      auto simp: uploadVideo_def Let_def split: settled.splits option.splits if_splits)+

lemma record_and_upload_settled:
  assumes "\<not> isRecording s" "scan_camera env \<noteq> Unsettled"
  shows "\<not> isRecording (final_state (record_and_upload rt c env s es))"
  using assms
  by (cases "scan_camera env")
     (auto simp: record_and_upload_def Let_def uploadVideo_frame split: option.splits)

lemma record_and_upload_Done:
  assumes "\<not> isRecording s" "\<not> isUploading s" "is_Done (record_and_upload rt c env s es)"
  shows "\<not> isRecording (final_state (record_and_upload rt c env s es))
       \<and> \<not> isUploading (final_state (record_and_upload rt c env s es))"
  using assms
  by (cases "scan_camera env")
     (auto simp: record_and_upload_def Let_def uploadVideo_frame split: option.splits if_splits)

lemma handleStartScan_settled:
  assumes "\<not> isRecording s" "scan_camera env \<noteq> Unsettled"
  shows "\<not> isRecording (final_state (handleStartScan rt c env s))"
  using assms record_and_upload_settled [of s env rt c]
  by (cases "request env") (auto simp: handleStartScan_def)

lemma handleStartScan_Done:
  assumes "\<not> isRecording s" "\<not> isUploading s" "is_Done (handleStartScan rt c env s)"
  shows "\<not> isRecording (final_state (handleStartScan rt c env s))
       \<and> \<not> isUploading (final_state (handleStartScan rt c env s))"
  using assms record_and_upload_Done [of s rt c env]
  by (cases "request env") (auto simp: handleStartScan_def split: if_splits)

lemma handleStartScan_recording:
  assumes "granted env \<or> request env = Resolved True" "scan_camera env = Unsettled"
  shows "isRecording (final_state (handleStartScan rt True env s))"
  using assms by (auto simp: handleStartScan_def record_and_upload_def Let_def)

lemma measure_again_eq_initial:
  "(measure_again s = initial_scan) = (\<not> isRecording s \<and> \<not> isUploading s)"
  by (cases s) (auto simp: measure_again_def initial_scan_def)

subsection \<open>Further facts on the pulse screens\<close>

lemma missing_bpm_reported:
  assumes "recording env = Resolved (Some uri)" and "uri \<noteq> []"
    and "fileInfo env = Resolved fi" and "exists fi"
    and "upload env = Resolved r" and "status r = 200" and "json r = Some data"
    and "get_prop data ''bpm'' = Some Undefined"
    and "\<not> isRecording s"
  shows "\<exists>es. startMeasurement rt True env s =
           Done \<lparr>isRecording = False, bpm = Null, error = Some ''No BPM data in response'',
                 isProcessing = False, uploadProgress = [], showCamera = False\<rparr>
                (es @ [Alert ''Error'' ''No BPM data in response''])"
  using failed_run [OF assms(1-8) _ assms(9)] by simp

lemma null_body_reported:
  assumes "recording env = Resolved (Some uri)" and "uri \<noteq> []"
    and "fileInfo env = Resolved fi" and "exists fi"
    and "upload env = Resolved r" and "status r = 200" and "json r = Some Null"
    and "\<not> isRecording s"
  shows "\<exists>es. startMeasurement rt True env s =
           Done \<lparr>isRecording = False, bpm = Null,
                 error = Some (message_or (Some (typeErrorMessage rt)) ''Something went wrong''),
                 isProcessing = False, uploadProgress = [], showCamera = False\<rparr>
                (es @ [Alert ''Error''
                         (message_or (Some (typeErrorMessage rt)) ''Something went wrong'')])"
  using assms
  by (cases s)
     (simp add: startMeasurement_def uploadVideoAndGetBpm_def handle_response_def Let_def
        report_progress_def upload_catch_def)

lemma saveBpm_appends:
  "history (saveBpm wr today v w) today
     = Some ((case history w today of None \<Rightarrow> [] | Some xs \<Rightarrow> xs) @ [v])"
  "heartRateHistory (saveBpm True today v w) = Some (history (saveBpm True today v w))"
  "d \<noteq> today \<Longrightarrow> history (saveBpm wr today v w) d = history w d"
  by (simp_all add: saveBpm_def Let_def)

lemma start_torch_pending:
  assumes "\<not> isRecording s" "recording env = Unsettled"
  shows "torch_on (final_state (startMeasurement rt True env s))"
  using assms by (simp add: startMeasurement_def Let_def torch_on_def enableTorch_def)

lemma start_torch_settled:
  assumes "\<not> isRecording s" "recording env \<noteq> Unsettled"
  shows "\<not> torch_on (final_state (startMeasurement rt c env s))"
proof (cases "is_Done (startMeasurement rt c env s)")
  case True
  then show ?thesis
    using start_Done_not_recording [OF assms(1), of rt c env]
    by (simp add: torch_on_def enableTorch_def)
next
  case False
  have up: "\<And>uri s' es s3 es3. uploadVideoAndGetBpm rt env uri s' es = Pending s3 es3
              \<Longrightarrow> showCamera s3 = showCamera s'"
    using upload_frame(2) by (metis final_state.simps(2))
  from False assms show ?thesis
    by (cases "recording env")
       (auto simp: startMeasurement_def start_catch_def Let_def torch_on_def up
             split: if_splits option.splits run.splits)
qed

lemma ppg_torch_invariant:
  assumes "torch w = scanning w"
  shows "torch (startPPGScan c now w) = scanning (startPPGScan c now w)"
    and "torch (scan_tick c p rnd now today wr w) = scanning (scan_tick c p rnd now today wr w)"
  using assms by (simp_all add: startPPGScan_def scan_tick_def saveBpm_def Let_def)

lemma ppg_torch_off:
  "20000 < now - startTime w \<Longrightarrow> \<not> torch (scan_tick True True rnd now today wr w)"
  by (simp add: scan_tick_def saveBpm_def Let_def)

subsection \<open>Rounding to a double, and decimal texts\<close>

lemma log2n_bounds: "0 < n \<Longrightarrow> 2 ^ log2n n \<le> n \<and> n < 2 ^ Suc (log2n n)"
proof (induction n rule: log2n.induct)
  case (1 n)
  show ?case
  proof (cases "n < 2")
    case True
    with 1(2) show ?thesis by (simp add: log2n.simps)
  next
    case False
    then have "0 < n div 2" by simp
    with 1(1) False have ih: "2 ^ log2n (n div 2) \<le> n div 2" "n div 2 < 2 ^ Suc (log2n (n div 2))"
      by simp_all
    have eq: "log2n n = Suc (log2n (n div 2))"
      using False by (subst log2n.simps) simp
    from ih show ?thesis unfolding eq by simp linarith
  qed
qed

lemma powi_diff_nat: "(2::rat) powi (int m - int n) = 2 ^ m / 2 ^ n"
  by (simp add: power_int_diff)

lemma ilog2_bounds:
  assumes "0 < a"
  shows "2 powi (ilog2 a) \<le> a" and "a < 2 powi (ilog2 a + 1)"
proof -
  obtain p q where pq: "quotient_of a = (p, q)" by (cases "quotient_of a")
  then have q: "0 < q" and a: "a = of_int p / of_int q"
    using quotient_of_denom_pos quotient_of_div by auto
  with assms have p: "0 < p"
    by (simp add: zero_less_divide_iff)
  define lp where "lp = log2n (nat p)"
  define lq where "lq = log2n (nat q)"
  have bp: "2 ^ lp \<le> nat p" "nat p < 2 ^ Suc lp"
    using log2n_bounds [of "nat p"] p by (simp_all add: lp_def)
  have bq: "2 ^ lq \<le> nat q" "nat q < 2 ^ Suc lq"
    using log2n_bounds [of "nat q"] q by (simp_all add: lq_def)
  have rp: "(2::rat) ^ lp \<le> of_int p" "of_int p < (2::rat) ^ Suc lp"
  proof -
    have "rat_of_nat (2 ^ lp) \<le> rat_of_nat (nat p)" using bp(1) by (simp only: of_nat_le_iff)
    then show "(2::rat) ^ lp \<le> of_int p" using p by simp
    have "rat_of_nat (nat p) < rat_of_nat (2 ^ Suc lp)" using bp(2) by (simp only: of_nat_less_iff)
    then show "of_int p < (2::rat) ^ Suc lp" using p by simp
  qed
  have rq: "(2::rat) ^ lq \<le> of_int q" "of_int q < (2::rat) ^ Suc lq"
  proof -
    have "rat_of_nat (2 ^ lq) \<le> rat_of_nat (nat q)" using bq(1) by (simp only: of_nat_le_iff)
    then show "(2::rat) ^ lq \<le> of_int q" using q by simp
    have "rat_of_nat (nat q) < rat_of_nat (2 ^ Suc lq)" using bq(2) by (simp only: of_nat_less_iff)
    then show "of_int q < (2::rat) ^ Suc lq" using q by simp
  qed
  have qpos: "(0::rat) < of_int q" using q by simp
  have lower: "2 powi (int lp - int lq - 1) \<le> a"
  proof -
    have "int lp - int lq - 1 = int lp - int (Suc lq)" by simp
    then have "(2::rat) powi (int lp - int lq - 1) = 2 ^ lp / 2 ^ Suc lq"
      by (simp only: powi_diff_nat)
    also have "\<dots> \<le> of_int p / of_int q"
      using rp(1) rq(2) qpos p by (intro frac_le) simp_all
    finally show ?thesis by (simp add: a)
  qed
  have upper: "a < 2 powi (int lp - int lq + 1)"
  proof -
    have "a = of_int p / of_int q" by (rule a)
    also have "\<dots> < 2 ^ Suc lp / 2 ^ lq"
      using rp(2) rq(1) qpos p by (intro frac_less) simp_all
    also have "\<dots> = (2::rat) powi (int lp - int lq + 1)"
    proof -
      have "int lp - int lq + 1 = int (Suc lp) - int lq" by simp
      then show ?thesis by (simp only: powi_diff_nat)
    qed
    finally show ?thesis .
  qed
  have il: "ilog2 a = (if 2 powi (int lp - int lq) \<le> a then int lp - int lq else int lp - int lq - 1)"
    by (simp add: ilog2_def pq lp_def lq_def Let_def)
  show "2 powi (ilog2 a) \<le> a" using lower by (simp add: il)
  show "a < 2 powi (ilog2 a + 1)" using upper by (auto simp: il not_le)
qed


lemma digit_value_le: "is_digit c \<Longrightarrow> digit_value c \<le> 9"
  by (auto simp: is_digit_def digit_value_def)

lemma foldl_digits_bound:
  assumes "\<forall>c \<in> set ds. is_digit c"
  shows "Suc (foldl (\<lambda>n c. 10 * n + digit_value c) acc ds) \<le> Suc acc * 10 ^ length ds"
  using assms
proof (induction ds arbitrary: acc)
  case Nil
  then show ?case by simp
next
  case (Cons c ds)
  then have "digit_value c \<le> 9" by (simp add: digit_value_le)
  then have "Suc (10 * acc + digit_value c) \<le> Suc acc * 10" by simp
  then have "Suc (10 * acc + digit_value c) * 10 ^ length ds \<le> Suc acc * 10 * 10 ^ length ds"
    by (rule mult_le_mono1)
  moreover have "Suc (foldl (\<lambda>n c. 10 * n + digit_value c) (10 * acc + digit_value c) ds)
        \<le> Suc (10 * acc + digit_value c) * 10 ^ length ds"
    using Cons by simp
  ultimately have "Suc (foldl (\<lambda>n c. 10 * n + digit_value c) (10 * acc + digit_value c) ds)
        \<le> Suc acc * 10 * 10 ^ length ds"
    by (rule order_trans [rotated])
  then show ?case by (simp only: foldl_Cons length_Cons power_Suc mult.assoc)
qed

lemma digits_value_bound:
  assumes "\<forall>c \<in> set ds. is_digit c"
  shows "digits_value ds < 10 ^ length ds"
  using foldl_digits_bound [OF assms, of 0] by (simp add: digits_value_def)

lemma foldl_nines:
  "Suc (foldl (\<lambda>n c. 10 * n + digit_value c) acc (replicate k (CHR ''9''))) = Suc acc * 10 ^ k"
  by (induction k arbitrary: acc) (simp_all add: digit_value_def algebra_simps)

lemma digits_value_nines: "Suc (digits_value (replicate k (CHR ''9''))) = 10 ^ k"
  using foldl_nines [of 0 k] by (simp add: digits_value_def)



lemma numeric_prefix_props:
  assumes "numeric_prefix t = (neg, ip, fp)"
  shows "length (ip @ fp) \<le> length t" and "\<forall>c \<in> set (ip @ fp). is_digit c"
proof -
  define r where "r = (if t \<noteq> [] \<and> hd t = CHR ''-'' then tl t else t)"
  define r1 where "r1 = dropWhile is_digit r"
  from assms have eq:
    "(t \<noteq> [] \<and> hd t = CHR ''-'', takeWhile is_digit r,
      if r1 \<noteq> [] \<and> hd r1 = CHR ''.'' then takeWhile is_digit (tl r1) else []) = (neg, ip, fp)"
    unfolding numeric_prefix_def Let_def r_def r1_def .
  have ip: "ip = takeWhile is_digit r"
    using eq by (simp only: prod.inject)
  have fp: "fp = (if r1 \<noteq> [] \<and> hd r1 = CHR ''.'' then takeWhile is_digit (tl r1) else [])"
    using eq by (simp only: prod.inject)
  have lr: "length r \<le> length t" by (auto simp: r_def)
  have "length fp \<le> length r1"
    using length_takeWhile_le [of is_digit "tl r1"] by (auto simp: fp)
  moreover have "length ip + length r1 = length r"
    using takeWhile_dropWhile_id [of is_digit r]
    by (metis ip r1_def length_append)
  ultimately show "length (ip @ fp) \<le> length t" using lr by simp
  show "\<forall>c \<in> set (ip @ fp). is_digit c"
    by (auto simp: ip fp dest: set_takeWhileD)
qed


lemma decimal_value_bound:
  assumes "\<forall>c \<in> set (ip @ fp). is_digit c"
  shows "\<bar>decimal_value neg ip fp\<bar> < 10 ^ length (ip @ fp)"
proof -
  define x :: rat where "x = of_nat (digits_value (ip @ fp))"
  define v :: rat where "v = x / 10 ^ length fp"
  have "rat_of_nat (digits_value (ip @ fp)) < rat_of_nat (10 ^ length (ip @ fp))"
    using digits_value_bound [OF assms] by (simp only: of_nat_less_iff)
  then have n: "x < 10 ^ length (ip @ fp)" by (simp add: x_def)
  have x0: "0 \<le> x" by (simp add: x_def)
  then have v0: "0 \<le> v" by (simp add: v_def)
  have "v * 1 \<le> v * 10 ^ length fp"
    using v0 by (intro mult_left_mono) simp_all
  also have "\<dots> = x" by (simp add: v_def)
  finally have "v \<le> x" by simp
  then have "v < 10 ^ length (ip @ fp)" using n by (rule order_le_less_trans)
  then have "\<bar>v\<bar> < 10 ^ length (ip @ fp)" "\<bar>- v\<bar> < 10 ^ length (ip @ fp)"
    using v0 by simp_all
  moreover have "decimal_value neg ip fp = (if neg then - v else v)"
    by (simp add: decimal_value_def Let_def v_def x_def)
  ultimately show ?thesis by (cases neg) (simp_all only: if_True if_False)
qed

lemma round_half_even_bounds:
  "of_int (round_half_even x) \<le> x + 1 / 2" "x - 1 / 2 \<le> of_int (round_half_even x)"
  by (auto simp: round_half_even_def Let_def) linarith+

lemma round_half_even_mono_int:
  assumes "of_int k \<le> x"
  shows "k \<le> round_half_even x"
proof -
  have "k \<le> \<lfloor>x\<rfloor>" using assms by (simp add: le_floor_iff)
  then show ?thesis by (auto simp: round_half_even_def Let_def)
qed

lemma round64_overflow:
  assumes "2 ^ 1024 \<le> \<bar>q\<bar>"
  shows "round64 q = (if 0 < q then PInf else NInf)"
proof -
  define a where "a = \<bar>q\<bar>"
  have a: "2 ^ 1024 \<le> a" "0 < a" using assms by (simp_all add: a_def) 
  define e where "e = ilog2 a"
  have e1: "2 powi e \<le> a" and e2: "a < 2 powi (e + 1)"
    using ilog2_bounds [OF a(2)] by (simp_all add: e_def)
  have p1024: "(2::rat) powi 1024 = 2 ^ 1024"
    using power_int_of_nat [of "2::rat" 1024] by simp
  have e: "1024 \<le> e"
  proof (rule ccontr)
    assume "\<not> 1024 \<le> e"
    then have "e + 1 \<le> 1024" by simp
    then have "(2::rat) powi (e + 1) \<le> 2 powi 1024"
      by (intro power_int_increasing) simp_all
    with a(1) e2 p1024 show False by simp
  qed
  then have m: "max e (- 1022) = e" by simp
  define u where "u = (2::rat) powi (e - 52)"
  have u: "0 < u" by (simp add: u_def)
  have "(2::rat) ^ 52 * u = 2 powi e"
    by (simp add: u_def power_int_diff)
  then have "of_int (2 ^ 52) \<le> a / u"
    using e1 u by (simp add: pos_le_divide_eq)
  then have "2 ^ 52 \<le> round_half_even (a / u)"
    by (rule round_half_even_mono_int)
  then have "(2::rat) ^ 52 \<le> of_int (round_half_even (a / u))"
    by (metis of_int_le_iff of_int_numeral of_int_power)
  then have "2 ^ 52 * u \<le> of_int (round_half_even (a / u)) * u"
    using u by simp
  then have "2 powi e \<le> of_int (round_half_even (a / u)) * u"
    using \<open>(2::rat) ^ 52 * u = 2 powi e\<close> by simp
  moreover have "(2::rat) ^ 1024 \<le> 2 powi e"
    using power_int_increasing [of 1024 e "2::rat"] e p1024 by simp
  ultimately have r: "2 ^ 1024 \<le> of_int (round_half_even (a / u)) * u" by simp
  have "q \<noteq> 0" using assms by auto
  then show ?thesis
    using r by (simp add: round64_def Let_def a_def [symmetric] e_def [symmetric] m u_def [symmetric])
qed


lemma round64_finite:
  assumes "\<bar>q\<bar> < 2 ^ 1023"
  shows "\<exists>x. round64 q = Fin x"
proof (cases "q = 0")
  case True
  then show ?thesis by (simp add: round64_def)
next
  case False
  define a where "a = \<bar>q\<bar>"
  have a: "a < 2 ^ 1023" "0 < a" using assms False by (simp_all add: a_def)
  have p1023: "(2::rat) powi 1023 = 2 ^ 1023"
    using power_int_of_nat [of "2::rat" 1023] by simp
  have p970: "(2::rat) powi 970 = 2 ^ 970"
    using power_int_of_nat [of "2::rat" 970] by simp
  have "2 powi (ilog2 a) < (2::rat) powi 1023"
    using ilog2_bounds(1) [OF a(2)] a(1) p1023 by simp
  then have "ilog2 a < 1023"
    by (rule power_int_le_imp_less_exp [rotated]) simp_all
  define e where "e = max (ilog2 a) (- 1022)"
  have e: "e \<le> 1022" using \<open>ilog2 a < 1023\<close> by (simp add: e_def)
  define u where "u = (2::rat) powi (e - 52)"
  have u: "0 < u" by (simp add: u_def)
  have "u \<le> 2 powi 970"
    unfolding u_def using e by (intro power_int_increasing) simp_all
  then have u970: "u \<le> 2 ^ 970" by (simp add: p970)
  have "of_int (round_half_even (a / u)) \<le> a / u + 1 / 2"
    by (rule round_half_even_bounds)
  then have "of_int (round_half_even (a / u)) * u \<le> (a / u + 1 / 2) * u"
    using u by (simp only: mult_le_cancel_right_pos)
  also have "\<dots> = a + u / 2" using u by (simp add: field_simps)
  also have "\<dots> < 2 ^ 1023 + 2 ^ 970" using a(1) u970 u by simp
  also have "\<dots> < (2::rat) ^ 1024" by simp
  finally have "\<not> 2 ^ 1024 \<le> of_int (round_half_even (a / u)) * u" by simp
  then show ?thesis
    using False
    by (simp add: round64_def Let_def a_def [symmetric] e_def [symmetric] u_def [symmetric])
qed


lemma round64_not_NaN [simp]: "round64 q \<noteq> NaN"
  by (simp add: round64_def Let_def)

lemma parseGrams_not_NaN: "parseGrams rt v \<noteq> NaN"
  by (simp add: parseGrams_def isNaN_def Let_def)

lemma parseGrams_unparsable:
  "parseFloat (keep_numeric (ToString rt v)) = NaN \<Longrightarrow> parseGrams rt v = Fin 0"
  by (simp add: parseGrams_def isNaN_def Let_def)

lemma parseGrams_absent:
  "parseGrams rt Undefined = Fin 0" "parseGrams rt Null = Fin 0" "parseGrams rt (JStr []) = Fin 0"
  by (simp_all add: parseGrams_def)

lemma parseFloat_finite:
  assumes "length t \<le> 300"
  shows "parseFloat t = NaN \<or> finite_number (parseFloat t)"
proof -
  obtain neg ip fp where np: "numeric_prefix t = (neg, ip, fp)"
    by (cases "numeric_prefix t") auto
  have len: "length (ip @ fp) \<le> 300"
    using numeric_prefix_props(1) [OF np] assms by simp
  have "\<bar>decimal_value neg ip fp\<bar> < 10 ^ length (ip @ fp)"
    by (rule decimal_value_bound [OF numeric_prefix_props(2) [OF np]])
  also have "\<dots> \<le> (10::rat) ^ 300"
    using len by (intro power_increasing) simp_all
  also have "\<dots> < 2 ^ 1023" by simp
  finally have "finite_number (round64 (decimal_value neg ip fp))"
    using round64_finite [of "decimal_value neg ip fp"] by (auto simp: finite_number_def)
  then show ?thesis
    by (simp add: parseFloat_def np)
qed

lemma parseGrams_finite:
  assumes "length (keep_numeric (ToString rt v)) \<le> 300"
  shows "finite_number (parseGrams rt v)"
  using parseFloat_finite [OF assms]
  by (auto simp: parseGrams_def isNaN_def Let_def finite_number_def)

lemma parseFloat_nines:
  assumes "(2::rat) ^ 1024 \<le> 10 ^ k - 1"
  shows "parseFloat (replicate k (CHR ''9'')) = PInf"
    and "parseFloat (CHR ''-'' # replicate k (CHR ''9'')) = NInf"
proof -
  have k: "0 < k"
  proof (rule ccontr)
    assume "\<not> 0 < k"
    then have "k = 0" by simp
    with assms show False by simp
  qed
  have "rat_of_nat (Suc (digits_value (replicate k (CHR ''9'')))) = rat_of_nat (10 ^ k)"
    by (simp only: digits_value_nines)
  then have v: "rat_of_nat (digits_value (replicate k (CHR ''9''))) = 10 ^ k - 1"
    by simp
  have d: "is_digit (CHR ''9'')" by (simp add: is_digit_def)
  have ne: "replicate k (CHR ''9'') \<noteq> []" using k by simp
  have hd9: "hd (replicate k (CHR ''9'')) = CHR ''9''" using k by (cases k) simp_all
  have np: "numeric_prefix (replicate k (CHR ''9'')) = (False, replicate k (CHR ''9''), [])"
    "numeric_prefix (CHR ''-'' # replicate k (CHR ''9'')) = (True, replicate k (CHR ''9''), [])"
    using d ne hd9 by (simp_all add: numeric_prefix_def Let_def)
  have dv: "decimal_value False (replicate k (CHR ''9'')) [] = 10 ^ k - 1"
    "decimal_value True (replicate k (CHR ''9'')) [] = - (10 ^ k - 1)"
    by (simp_all add: decimal_value_def v)
  have "(0::rat) < 2 ^ 1024" by simp
  then have pos: "(0::rat) < 10 ^ k - 1" using assms by (rule order_less_le_trans)
  have ab: "\<bar>(10::rat) ^ k - 1\<bar> = 10 ^ k - 1" "\<bar>- ((10::rat) ^ k - 1)\<bar> = 10 ^ k - 1"
    using pos by simp_all
  have "round64 (10 ^ k - 1) = PInf"
    using round64_overflow [of "10 ^ k - 1"] assms pos by (simp only: ab if_True)
  moreover have "round64 (- (10 ^ k - 1)) = NInf"
  proof -
    have "\<not> 0 < - ((10::rat) ^ k - 1)" using pos by simp
    then show ?thesis
      using round64_overflow [of "- (10 ^ k - 1)"] assms by (simp only: ab if_False)
  qed
  ultimately show "parseFloat (replicate k (CHR ''9'')) = PInf"
    and "parseFloat (CHR ''-'' # replicate k (CHR ''9'')) = NInf"
    using ne by (simp_all add: parseFloat_def np dv)
qed

lemma overflow_400: "(2::rat) ^ 1024 \<le> 10 ^ 400 - 1"
  by simp

subsection \<open>Calls made by the upload handlers, and unsettled calls\<close>

lemma upload_effects_missing_file:
  assumes "fileInfo env = Resolved fi" "\<not> exists fi"
  shows "uploadVideoAndGetBpm rt env uri s [] =
           Done (s\<lparr>error := Some ''Video file not found'', bpm := Null, uploadProgress := [],
                   isProcessing := False\<rparr>)
             [GetInfoAsync uri, Alert ''Error'' ''Video file not found'']"
  using assms by (simp add: uploadVideoAndGetBpm_def upload_catch_def message_or_def Let_def)

lemma upload_effects_existing_file:
  assumes "fileInfo env = Resolved fi" "exists fi"
  shows "take 2 (effects (uploadVideoAndGetBpm rt env uri s []))
           = [GetInfoAsync uri, UploadAsync API_URL uri pulse_upload_options]"
    and "length (filter is_network (effects (uploadVideoAndGetBpm rt env uri s []))) = 1"
proof -
  show "take 2 (effects (uploadVideoAndGetBpm rt env uri s []))
           = [GetInfoAsync uri, UploadAsync API_URL uri pulse_upload_options]"
  proof (cases "upload env")
    case (Resolved r)
    obtain t m where
      "effects (handle_response rt r
          (report_progress rt (progress env)
            (s\<lparr>error := None, bpm := Null,
               uploadProgress :=
                 (if js_gt (js_div (js_div (Fin (of_nat (size_bytes fi))) (Fin 1024)) (Fin 1024))
                       (Fin 50)
                  then ''Uploading large file ('' @
                       toFixed rt 0
                         (js_div (js_div (Fin (of_nat (size_bytes fi))) (Fin 1024)) (Fin 1024)) @
                       ''MB)... This may take a while''
                  else ''Uploading video...'')\<rparr>))
          [GetInfoAsync uri, UploadAsync API_URL uri pulse_upload_options])
        = [GetInfoAsync uri, UploadAsync API_URL uri pulse_upload_options] @ [Alert t m]"
      using handle_response_effects by blast
    with Resolved assms show ?thesis
      by (simp add: uploadVideoAndGetBpm_def Let_def)
  qed (use assms in \<open>simp_all add: uploadVideoAndGetBpm_def Let_def\<close>)
  show "length (filter is_network (effects (uploadVideoAndGetBpm rt env uri s []))) = 1"
    using assms
    by (cases "upload env")
       (simp_all add: uploadVideoAndGetBpm_def Let_def handle_response_filter)
qed

lemma upload_effects_no_file_info:
  assumes "fileInfo env = Unsettled \<or> fileInfo env = Rejected m"
  shows "filter is_network (effects (uploadVideoAndGetBpm rt env uri s [])) = []"
  using assms by (auto simp: uploadVideoAndGetBpm_def Let_def)

lemma upload_scr_effects:
  "take 1 (effects (uploadVideoAndGetBpm_scr rt fenv uri x [])) = [upload_request_scr uri]"
  "length (filter is_network (effects (uploadVideoAndGetBpm_scr rt fenv uri x []))) = 1"
  by (auto simp: uploadVideoAndGetBpm_scr_def upload_catch_scr_def upload_request_scr_def Let_def
        split: settled.splits option.splits)

lemma chat_aborted:
  assumes "trim (input cs) \<noteq> []" "\<not> loading cs" "aborted cenv"
  shows "sendMessage cenv cs =
    Done \<lparr>input = [],
          messages = messages cs @
            [\<lparr>role = ''user'', content = JStr (input cs)\<rparr>,
             \<lparr>role = ''assistant'',
              content = JStr (warning_sign @ '' Failed to connect to the bot.'')\<rparr>],
          loading = False\<rparr>
      [chat_request (messages cs @ [\<lparr>role = ''user'', content = JStr (input cs)\<rparr>])]"
  using assms
  by (cases cs) (simp add: sendMessage_def chat_failed_def assistant_says_def Let_def)

lemma chat_failure_is_generic:
  assumes "trim (input cs) \<noteq> []" "\<not> loading cs"
    and "chat_fetched cenv = Rejected m"
  shows "sendMessage cenv cs = sendMessage \<lparr>chat_fetched = Unsettled, settles_at = 0\<rparr> cs"
  using assms
  by (simp add: sendMessage_def chat_failed_def aborted_def Let_def)

lemma chat_body_unbounded:
  assumes "trim (input cs) \<noteq> []" "\<not> loading cs" "\<not> aborted cenv"
    and "chat_fetched cenv = Resolved res" "ok res" "resp_json res = Unsettled"
  shows "\<not> is_Done (sendMessage cenv cs)" "loading (final_state (sendMessage cenv cs))"
  using assms by (simp_all add: sendMessage_def Let_def)

lemma upload_unsettled:
  assumes "fileInfo env = Resolved fi" "exists fi" "upload env = Unsettled"
  shows "\<not> is_Done (uploadVideoAndGetBpm rt env uri s es)"
    "error (final_state (uploadVideoAndGetBpm rt env uri s es)) = None"
    "isProcessing (final_state (uploadVideoAndGetBpm rt env uri s es)) = isProcessing s"
  using assms by (simp_all add: uploadVideoAndGetBpm_def Let_def)

lemma fetch_unsettled_scr:
  assumes "fetched fenv = Unsettled"
  shows "\<not> is_Done (uploadVideoAndGetBpm_scr rt fenv uri x es)"
  using assms by (simp add: uploadVideoAndGetBpm_scr_def Let_def)

lemma fetch_unsettled_scan:
  assumes "scan_fetched senv = Unsettled"
  shows "\<not> is_Done (uploadVideo rt senv uri z es)"
  using assms by (simp add: uploadVideo_def Let_def)

subsection \<open>Nutrient totals\<close>

lemma digit_char_is_digit: "is_digit (digit_char d)"
proof -
  have "d mod 10 < length ''0123456789''" by simp
  then have "''0123456789'' ! (d mod 10) \<in> set ''0123456789''" by (rule nth_mem)
  then show ?thesis by (simp only: is_digit_def digit_char_def)
qed

lemma digits_props: "digits n \<noteq> [] \<and> (\<forall>c \<in> set (digits n). is_digit c)"
proof (induction n rule: digits.induct)
  case (1 n)
  show ?case
  proof (cases "n < 10")
    case True
    then have "digits n = [digit_char n]" by (subst digits.simps) simp
    then show ?thesis by (simp add: digit_char_is_digit)
  next
    case False
    then have "digits n = digits (n div 10) @ [digit_char n]" by (subst digits.simps) simp
    with 1 False show ?thesis by (simp add: digit_char_is_digit)
  qed
qed

lemma is_digit_0: "is_digit (CHR ''0'')"
  by (simp add: is_digit_def)

lemma fmt_two_decimals:
  assumes "\<bar>q\<bar> < 10 ^ 21"
  shows "\<exists>ip d1 d2. fmt rt (Fin q) = (if q < 0 then ''-'' else []) @ ip @ [CHR ''.'', d1, d2, CHR ''g'']
           \<and> ip \<noteq> [] \<and> list_all is_digit (ip @ [d1, d2])"
proof -
  define m where "m = digits (nat \<lfloor>\<bar>q\<bar> * 10 ^ 2 + 1 / 2\<rfloor>)"
  define p where "p = replicate (2 + 1 - length m) (CHR ''0'') @ m"
  have m: "m \<noteq> []" "\<forall>c \<in> set m. is_digit c"
    using digits_props by (simp_all add: m_def)
  have lp: "3 \<le> length p" by (simp add: p_def)
  have dp: "\<forall>c \<in> set p. is_digit c"
    using m(2) by (auto simp: p_def is_digit_0)
  define ip where "ip = take (length p - 2) p"
  define fr where "fr = drop (length p - 2) p"
  have "length fr = 2" using lp by (simp add: fr_def)
  then obtain d1 d2 where fr: "fr = [d1, d2]"
    by (metis (no_types, opaque_lifting) One_nat_def Suc_1 length_0_conv length_Suc_conv)
  have ipne: "ip \<noteq> []" using lp by (auto simp: ip_def)
  have "set ip \<subseteq> set p" "set fr \<subseteq> set p"
    by (simp_all add: ip_def fr_def set_take_subset set_drop_subset)
  then have dig: "list_all is_digit (ip @ [d1, d2])"
    using dp fr by (auto simp: list_all_iff)
  have ng: "(10 ^ 21 \<le> \<bar>q\<bar>) = False" using assms by simp
  have two: "((2::nat) = 0) = False" by simp
  have "fmt rt (Fin q) = (if q < 0 then ''-'' else []) @ ip @ ''.'' @ fr @ ''g''"
    unfolding fmt_def toFixed_def Let_def ip_def fr_def p_def m_def
    by (simp only: jsnum.case ng two if_False append_assoc)
  then show ?thesis using fr ipne dig by auto
qed


lemma get_prop_defined: "f \<noteq> Null \<Longrightarrow> f \<noteq> Undefined \<Longrightarrow> \<exists>v. get_prop f k = Some v"
  by (cases f) simp_all

lemma add_food_total:
  assumes "f \<noteq> Null" "f \<noteq> Undefined"
  shows "\<exists>t'. add_food rt t f = Some t'"
proof -
  obtain c a b p where "get_prop f ''carbs'' = Some c" "get_prop f ''fat'' = Some a"
    "get_prop f ''fiber'' = Some b" "get_prop f ''protein'' = Some p"
    using get_prop_defined [OF assms] by metis
  then show ?thesis by (simp add: add_food_def)
qed

lemma sum_foods_total:
  assumes "Null \<notin> set foods" "Undefined \<notin> set foods"
  shows "\<exists>t'. sum_foods rt t foods = Some t'"
  using assms
proof (induction foods arbitrary: t)
  case Nil
  then show ?case by simp
next
  case (Cons f fs)
  then obtain t1 where "add_food rt t f = Some t1"
    using add_food_total [of f rt t] by auto
  with Cons show ?case by simp
qed

lemma js_add_no_NaN:
  assumes "x \<noteq> NaN" "finite_number y"
  shows "js_add x y \<noteq> NaN"
  using assms by (cases x; cases y) (simp_all add: finite_number_def)

lemma add_food_no_NaN:
  assumes "no_NaN t" "finite_fields rt f"
  shows "\<exists>t'. add_food rt t f = Some t' \<and> no_NaN t'"
proof -
  from assms(2) obtain c a b p where g: "get_prop f ''carbs'' = Some c" "get_prop f ''fat'' = Some a"
    "get_prop f ''fiber'' = Some b" "get_prop f ''protein'' = Some p"
    and fin: "finite_number (parseGrams rt c)" "finite_number (parseGrams rt a)"
      "finite_number (parseGrams rt b)" "finite_number (parseGrams rt p)"
    by (auto simp: finite_fields_def split: option.splits)
  show ?thesis
    using assms(1) fin by (simp add: add_food_def g no_NaN_def js_add_no_NaN)
qed

lemma sum_foods_no_NaN:
  assumes "no_NaN t" "list_all (finite_fields rt) foods"
  shows "\<exists>t'. sum_foods rt t foods = Some t' \<and> no_NaN t'"
  using assms
proof (induction foods arbitrary: t)
  case Nil
  then show ?case by simp
next
  case (Cons f fs)
  then obtain t1 where "add_food rt t f = Some t1" "no_NaN t1"
    using add_food_no_NaN [of t rt f] by auto
  with Cons show ?case by simp
qed

lemma long_digits_facts:
  "long_digits \<noteq> []" "keep_numeric long_digits = long_digits"
  "keep_numeric (CHR ''-'' # long_digits) = CHR ''-'' # long_digits"
  "parseFloat long_digits = PInf" "parseFloat (CHR ''-'' # long_digits) = NInf"
  using parseFloat_nines [OF overflow_400]
  by (simp_all add: long_digits_def keep_numeric_def)

lemma digits_0: "digits 0 = ''0''"
  by (simp add: digits.simps digit_char_def)

lemma fmt_zero: "fmt rt (Fin 0) = ''0.00g''"
  by (simp add: fmt_def toFixed_def digits_0)

lemma fmt_NaN: "fmt rt NaN = ''NaNg''"
  by (simp add: fmt_def toFixed_def Number_toString_def)

section \<open>Properties\<close>

text \<open>
  C8. The scan-history log is bounded and most-recent-first: whatever the saved array held
  before, after a save whose write succeeds the stored array is the array of the state, has
  at most 50 entries, starts with the item just saved, and continues with the previous
  entries in their order. A save whose write fails builds the same array in the state and
  leaves the store as it was.
\<close>

theorem saveResult_bounded_recent_first:
  "SAVED_BARCODES (saveResult True item w) = Some (savedFoods (saveResult True item w))
   \<and> length (savedFoods (saveResult True item w)) \<le> 50
   \<and> hd (savedFoods (saveResult True item w)) = item
   \<and> savedFoods (saveResult True item w) = item # take 49 (savedFoods w)
   \<and> savedFoods (saveResult False item w) = item # take 49 (savedFoods w)
   \<and> SAVED_BARCODES (saveResult False item w) = SAVED_BARCODES w"
  by (simp add: saveResult_def slice0_def Let_def)

text \<open>
  C3. At most one capture and one upload are active at a time. In the manual-stop screen a
  call of \<open>startMeasurement\<close> while \<open>isRecording\<close> is set is a no-op: with the camera
  ready it returns at once with the state unchanged and no call made; with the camera
  reference missing it only shows the "Camera not ready yet" alert. It starts no recording
  and no upload. As long as a measurement has not finished (the recording or the upload is
  still awaited) \<open>isRecording\<close> is set, so every further start falls under that no-op;
  and one measurement starts at most one recording and at most one upload.
\<close>

theorem second_start_is_noop:
  "(isRecording s \<longrightarrow> startMeasurement rt True env s = Done s [])
   \<and> (isRecording s \<longrightarrow>
        final_state (startMeasurement rt c env s) = s
        \<and> filter is_capture (effects (startMeasurement rt c env s)) = []
        \<and> filter is_network (effects (startMeasurement rt c env s)) = [])
   \<and> (\<not> is_Done (startMeasurement rt c env s) \<longrightarrow>
        isRecording (final_state (startMeasurement rt c env s)))
   \<and> length (filter is_capture (effects (startMeasurement rt c env s))) \<le> 1
   \<and> length (filter is_network (effects (startMeasurement rt c env s))) \<le> 1"
proof -
  have "isRecording s \<Longrightarrow> startMeasurement rt b env s
          = (if b then Done s [] else Done s [Alert ''Error'' ''Camera not ready yet''])" for b
    by (simp add: startMeasurement_def)
  then show ?thesis
    using start_Pending_recording [of rt c env s] start_effects_filter(1,2) [of rt c env s]
    by auto
qed

text \<open>An instance: a start while recording, and a measurement whose upload is still awaited.\<close>

theorem second_start_is_noop_witness:
  "isRecording (initial_screen\<lparr>isRecording := True\<rparr>)
   \<and> startMeasurement sample_runtime True sample_env (initial_screen\<lparr>isRecording := True\<rparr>)
       = Done (initial_screen\<lparr>isRecording := True\<rparr>) []
   \<and> \<not> is_Done (startMeasurement sample_runtime True (sample_env\<lparr>upload := Unsettled\<rparr>)
                  initial_screen)
   \<and> isRecording (final_state (startMeasurement sample_runtime True
                     (sample_env\<lparr>upload := Unsettled\<rparr>) initial_screen))"
  using second_start_is_noop [of "initial_screen\<lparr>isRecording := True\<rparr>" sample_runtime sample_env True]
    second_start_is_noop [of initial_screen sample_runtime "sample_env\<lparr>upload := Unsettled\<rparr>" True]
  by (simp add: startMeasurement_def uploadVideoAndGetBpm_def sample_env_def initial_screen_def
        Let_def)

text \<open>
  C7. Measure again returns the controller to the state of the initial mount. In the
  manual-stop screen, after any finished measurement (with a result or with an error, for
  every answer of the camera, the file system and the backend) \<open>resetForNewMeasurement\<close>
  yields exactly the initial state, with \<open>bpm\<close> and \<open>error\<close> null; applying it twice is
  the same as applying it once. The same holds for the Measure Again handler of the screen
  with an upload flag.
\<close>

theorem measure_again_resets:
  "(\<not> isRecording s0 \<longrightarrow> is_Done (startMeasurement rt c env s0) \<longrightarrow>
      resetForNewMeasurement (final_state (startMeasurement rt c env s0)) = initial_screen)
   \<and> (\<not> isRecording s \<longrightarrow> resetForNewMeasurement s = initial_screen)
   \<and> bpm (resetForNewMeasurement s) = Null \<and> error (resetForNewMeasurement s) = None
   \<and> resetForNewMeasurement (resetForNewMeasurement s) = resetForNewMeasurement s
   \<and> (\<not> isRecording z0 \<longrightarrow> \<not> isUploading z0 \<longrightarrow> is_Done (handleStartScan rt c senv z0) \<longrightarrow>
        measure_again (final_state (handleStartScan rt c senv z0)) = initial_scan)
   \<and> measure_again (measure_again z) = measure_again z"
  using start_Done_not_recording [of s0 rt c env] handleStartScan_Done [of z0 rt c senv]
  by (auto simp: reset_eq_initial measure_again_eq_initial)
     (simp_all add: resetForNewMeasurement_def measure_again_def)

text \<open>
  An instance: a measurement that ends with a result, one that the server rejects, and a
  scan of the screen with an upload flag whose recording fails.
\<close>

theorem measure_again_resets_witness:
  "\<not> isRecording initial_screen
   \<and> is_Done (startMeasurement sample_runtime True sample_env initial_screen)
   \<and> resetForNewMeasurement
        (final_state (startMeasurement sample_runtime True sample_env initial_screen))
       = initial_screen
   \<and> is_Done (startMeasurement sample_runtime True
        (sample_env\<lparr>upload := Resolved \<lparr>status = 500, body = [], json = Some (JObj [])\<rparr>\<rparr>)
        initial_screen)
   \<and> resetForNewMeasurement
        (final_state (startMeasurement sample_runtime True
          (sample_env\<lparr>upload := Resolved \<lparr>status = 500, body = [], json = Some (JObj [])\<rparr>\<rparr>)
          initial_screen))
       = initial_screen
   \<and> is_Done (handleStartScan sample_runtime True
        (sample_scan_env\<lparr>scan_camera := Rejected None\<rparr>) initial_scan)
   \<and> measure_again
        (final_state (handleStartScan sample_runtime True
          (sample_scan_env\<lparr>scan_camera := Rejected None\<rparr>) initial_scan))
       = initial_scan"
  using measure_again_resets [of initial_screen sample_runtime True sample_env]
    measure_again_resets [of initial_screen sample_runtime True
      "sample_env\<lparr>upload := Resolved \<lparr>status = 500, body = [], json = Some (JObj [])\<rparr>\<rparr>"]
    measure_again_resets [of initial_screen sample_runtime True sample_env initial_screen
      initial_scan "sample_scan_env\<lparr>scan_camera := Rejected None\<rparr>"]
  by (simp add: startMeasurement_def uploadVideoAndGetBpm_def handle_response_def
        upload_catch_def report_progress_def resetForNewMeasurement_def
        sample_env_def initial_screen_def Let_def
        handleStartScan_def record_and_upload_def scan_catch_def sample_scan_env_def
        initial_scan_def)

text \<open>
  C1, as the claim states it, fails on src/screens/PulseScanScreen.js: there the torch
  property of the camera view is the constant \<open>true\<close>, so the torch is on at the initial
  mount, when nothing is being recorded.
\<close>

theorem torch_on_while_idle_scr:
  "enableTorch_scr initial_scr \<and> \<not> isRecording initial_scr"
  by (simp add: enableTorch_scr_def initial_scr_def)

text \<open>
  C1, amended. In the manual-stop screen (part_004) the torch is on exactly while the camera
  view is shown and \<open>isRecording\<close> is set: starting from a state that is not recording, it
  is on while \<open>recordAsync\<close> is awaited, and off as soon as \<open>recordAsync\<close> has settled,
  with a video (manual stop) or with an error, also while the upload is awaited; once the
  handler has finished \<open>isRecording\<close> is false. In the screen with an upload flag
  (part_005) the torch property is \<open>isRecording\<close>, set while the recording is awaited and
  cleared after it has settled (at the end of the fixed duration, or with an error). In the
  screen with local history (part_005) \<open>startPPGScan\<close> and the interval callback keep the
  torch equal to \<open>scanning\<close>, and the callback that runs after 20 s turns it off. In
  src/screens/PulseScanScreen.js the torch property is on in every state.
\<close>

theorem torch_follows_recording:
  assumes "\<not> isRecording s" and "\<not> isRecording z"
  shows "(recording env = Unsettled \<longrightarrow> torch_on (final_state (startMeasurement rt True env s)))
    \<and> (recording env \<noteq> Unsettled \<longrightarrow> \<not> torch_on (final_state (startMeasurement rt c env s)))
    \<and> (is_Done (startMeasurement rt c env s) \<longrightarrow>
          \<not> isRecording (final_state (startMeasurement rt c env s)))
    \<and> ((granted senv \<or> request senv = Resolved True) \<longrightarrow> scan_camera senv = Unsettled \<longrightarrow>
          enableTorch_scan (final_state (handleStartScan rt True senv z)))
    \<and> (scan_camera senv \<noteq> Unsettled \<longrightarrow>
          \<not> enableTorch_scan (final_state (handleStartScan rt c senv z)))
    \<and> (torch w = scanning w \<longrightarrow>
          torch (startPPGScan c now w) = scanning (startPPGScan c now w)
          \<and> torch (scan_tick c p rnd now today wr w)
              = scanning (scan_tick c p rnd now today wr w))
    \<and> (20000 < now - startTime w \<longrightarrow> \<not> torch (scan_tick True True rnd now today wr w))
    \<and> enableTorch_scr x"
  using assms start_torch_pending [of s env rt] start_torch_settled [of s env rt c]
    start_Done_not_recording [of s rt c env]
    handleStartScan_recording [of senv rt z] handleStartScan_settled [of z senv rt c]
    ppg_torch_invariant(1) [of w c now] ppg_torch_invariant(2) [of w c p rnd now today wr]
    ppg_torch_off [of now w rnd today wr]
  by (simp add: enableTorch_scan_def enableTorch_scr_def)

text \<open>
  An instance: the recording awaited, stopped with a video, and failed, in the manual-stop
  screen and in the screen with an upload flag; a scan started and stopped after 20 s.
\<close>

theorem torch_follows_recording_witness:
  "\<not> isRecording initial_screen \<and> \<not> isRecording initial_scan
   \<and> torch_on (final_state (startMeasurement sample_runtime True
        (sample_env\<lparr>recording := Unsettled\<rparr>) initial_screen))
   \<and> \<not> torch_on (final_state (startMeasurement sample_runtime True sample_env initial_screen))
   \<and> \<not> torch_on (final_state (startMeasurement sample_runtime True
        (sample_env\<lparr>recording := Rejected (Some ''Camera failure'')\<rparr>) initial_screen))
   \<and> enableTorch_scan (final_state (handleStartScan sample_runtime True sample_scan_env
        initial_scan))
   \<and> \<not> enableTorch_scan (final_state (handleStartScan sample_runtime True
        (sample_scan_env\<lparr>scan_camera := Rejected None\<rparr>) initial_scan))
   \<and> torch (startPPGScan True 0 sample_world) = scanning (startPPGScan True 0 sample_world)
   \<and> \<not> torch (scan_tick True True (Fin (1 / 2)) 20001 ''2024-01-01'' True
          (startPPGScan True 0 sample_world))"
proof -
  have h: "\<not> isRecording initial_screen" "\<not> isRecording initial_scan"
    by (simp_all add: initial_screen_def initial_scan_def)
  have u: "recording (sample_env\<lparr>recording := Unsettled\<rparr>) = Unsettled"
    and r: "recording sample_env \<noteq> Unsettled"
           "recording (sample_env\<lparr>recording := Rejected (Some ''Camera failure'')\<rparr>) \<noteq> Unsettled"
    by (simp_all add: sample_env_def)
  have g: "granted sample_scan_env \<or> request sample_scan_env = Resolved True"
    and su: "scan_camera sample_scan_env = Unsettled"
    and sr: "scan_camera (sample_scan_env\<lparr>scan_camera := Rejected None\<rparr>) \<noteq> Unsettled"
    by (simp_all add: sample_scan_env_def)
  have w: "torch sample_world = scanning sample_world"
    and t: "20000 < 20001 - startTime (startPPGScan True 0 sample_world)"
    by (simp_all add: sample_world_def startPPGScan_def)
  note pending = torch_follows_recording [OF h, THEN conjunct1]
  note settled = torch_follows_recording [OF h, THEN conjunct2, THEN conjunct1]
  note scan_pending =
    torch_follows_recording [OF h, THEN conjunct2, THEN conjunct2, THEN conjunct2, THEN conjunct1]
  note scan_settled =
    torch_follows_recording [OF h, THEN conjunct2, THEN conjunct2, THEN conjunct2, THEN conjunct2,
      THEN conjunct1]
  note ppg =
    torch_follows_recording [OF h, THEN conjunct2, THEN conjunct2, THEN conjunct2, THEN conjunct2,
      THEN conjunct2, THEN conjunct1]
  note ppg_off =
    torch_follows_recording [OF h, THEN conjunct2, THEN conjunct2, THEN conjunct2, THEN conjunct2,
      THEN conjunct2, THEN conjunct2, THEN conjunct1]
  show ?thesis
    using h u r g su sr w t
      pending [of "sample_env\<lparr>recording := Unsettled\<rparr>" sample_runtime]
      settled [of sample_env sample_runtime True]
      settled [of "sample_env\<lparr>recording := Rejected (Some ''Camera failure'')\<rparr>"
        sample_runtime True]
      scan_pending [of sample_scan_env sample_runtime]
      scan_settled [of "sample_scan_env\<lparr>scan_camera := Rejected None\<rparr>" sample_runtime True]
      ppg [of sample_world True 0]
      ppg_off [of 20001 "startPPGScan True 0 sample_world" "Fin (1 / 2)" "''2024-01-01''" True]
    by blast
qed

text \<open>
  C2, as the claim states it, fails: the screen that receives the backend's answer writes
  nothing to the persistent store. For the answer \<open>{"bpm": 72}\<close> the measurement ends, the
  card shows \<open>72 BPM\<close>, and no \<open>setItem\<close> call was made.
\<close>

theorem bpm_72_not_saved:
  "is_Done (startMeasurement sample_runtime True sample_env initial_screen)
   \<and> card sample_runtime (final_state (startMeasurement sample_runtime True sample_env initial_screen))
       = ResultCard ''72 BPM''
   \<and> filter is_store_write (effects (startMeasurement sample_runtime True sample_env initial_screen))
       = []"
  by (simp add: startMeasurement_def uploadVideoAndGetBpm_def handle_response_def
        report_progress_def sample_env_def initial_screen_def Let_def card_def
        Number_toString_def digits_72 pulse_upload_options_def)

text \<open>
  C2, amended. For every successful answer whose JSON body is \<open>{"bpm": 72}\<close> the
  manual-stop screen stores 72 in \<open>bpm\<close>, shows exactly \<open>72 BPM\<close> on the card and the
  alert "Your heart rate is 72 BPM", and writes nothing to the persistent store. The history
  is written only by \<open>saveBpm\<close> of the screen with local history: it appends the value it
  is given as the last entry of the current date, and stores the updated history; the value
  it is given there is the one computed on the device by \<open>calculateBpm\<close>.
\<close>

theorem bpm_72_rendered_not_saved:
  assumes "recording env = Resolved (Some uri)" and "uri \<noteq> []"
    and "fileInfo env = Resolved fi" and "exists fi"
    and "upload env = Resolved r" and "status r = 200"
    and "json r = Some (JObj [(''bpm'', JNum (Fin 72))])"
    and "\<not> isRecording s"
  shows "is_Done (startMeasurement rt True env s)
    \<and> bpm (final_state (startMeasurement rt True env s)) = JNum (Fin 72)
    \<and> error (final_state (startMeasurement rt True env s)) = None
    \<and> card rt (final_state (startMeasurement rt True env s)) = ResultCard ''72 BPM''
    \<and> last (effects (startMeasurement rt True env s))
        = Alert ''Success!'' ''Your heart rate is 72 BPM''
    \<and> filter is_store_write (effects (startMeasurement rt True env s)) = []
    \<and> history (saveBpm wr today v w) today
        = Some ((case history w today of None \<Rightarrow> [] | Some xs \<Rightarrow> xs) @ [v])
    \<and> last (the (history (saveBpm wr today v w) today)) = v
    \<and> heartRateHistory (saveBpm True today v w) = Some (history (saveBpm True today v w))
    \<and> (20000 < now - startTime w \<longrightarrow>
         history (scan_tick True True rnd now today wr w) today
           = Some ((case history w today of None \<Rightarrow> [] | Some xs \<Rightarrow> xs)
                   @ [calculateBpm (redValues w @ [js_mul rnd (Fin 255)])]))"
proof -
  have n: "Number_toString rt (Fin 72) = ''72''"
    by (simp add: Number_toString_def digits_72)
  have "get_prop (JObj [(''bpm'', JNum (Fin 72))]) ''bpm'' = Some (JNum (Fin 72))"
    and "truthy (JNum (Fin 72))"
    by simp_all
  from success_run [OF assms(1-7) this assms(8), of rt]
  obtain es where 1: "startMeasurement rt True env s =
           Done \<lparr>isRecording = False, bpm = JNum (Fin 72), error = None, isProcessing = False,
                 uploadProgress = [], showCamera = False\<rparr>
                (es @ [Alert ''Success!'' (''Your heart rate is '' @ ToString rt (JNum (Fin 72)) @ '' BPM'')])"
    by blast
  show ?thesis
    using start_effects_filter(3) [of rt True env s]
    by (simp add: 1 n card_def saveBpm_appends scan_tick_def Let_def)
qed

text \<open>
  An instance: the sample answer; a first value saved for a date; the value saved by the
  callback that ends a scan.
\<close>

theorem bpm_72_rendered_not_saved_witness:
  "card sample_runtime (final_state (startMeasurement sample_runtime True sample_env initial_screen))
     = ResultCard ''72 BPM''
   \<and> last (effects (startMeasurement sample_runtime True sample_env initial_screen))
       = Alert ''Success!'' ''Your heart rate is 72 BPM''
   \<and> history (saveBpm True ''2024-01-01'' (Fin 72) sample_world) ''2024-01-01'' = Some [Fin 72]
   \<and> history (scan_tick True True (Fin (1 / 2)) 20001 ''2024-01-01'' True
         (startPPGScan True 0 sample_world)) ''2024-01-01''
       = Some [calculateBpm [js_mul (Fin (1 / 2)) (Fin 255)]]"
proof -
  have "recording sample_env = Resolved (Some ''file:///cache/clip.mp4'')"
    and "''file:///cache/clip.mp4'' \<noteq> []"
    and "fileInfo sample_env = Resolved \<lparr>exists = True, size_bytes = 1048576\<rparr>"
    and "exists \<lparr>exists = True, size_bytes = 1048576\<rparr>"
    and "upload sample_env = Resolved \<lparr>status = 200,
           body = ''{'' @ [CHR 0x22] @ ''bpm'' @ [CHR 0x22] @ '': 72}'',
           json = Some (JObj [(''bpm'', JNum (Fin 72))])\<rparr>"
    and "status \<lparr>status = 200,
           body = ''{'' @ [CHR 0x22] @ ''bpm'' @ [CHR 0x22] @ '': 72}'',
           json = Some (JObj [(''bpm'', JNum (Fin 72))])\<rparr> = 200"
    and "json \<lparr>status = 200,
           body = ''{'' @ [CHR 0x22] @ ''bpm'' @ [CHR 0x22] @ '': 72}'',
           json = Some (JObj [(''bpm'', JNum (Fin 72))])\<rparr>
          = Some (JObj [(''bpm'', JNum (Fin 72))])"
    and "\<not> isRecording initial_screen"
    by (simp_all add: sample_env_def initial_screen_def)
  note th = bpm_72_rendered_not_saved [OF this]
  have w: "history sample_world ''2024-01-01'' = None"
    "history (startPPGScan True 0 sample_world) ''2024-01-01'' = None"
    "redValues (startPPGScan True 0 sample_world) = []"
    "20000 < 20001 - startTime (startPPGScan True 0 sample_world)"
    by (simp_all add: sample_world_def startPPGScan_def)
  show ?thesis
    using th [of sample_runtime True "''2024-01-01''" "Fin 72" sample_world]
      th [of sample_runtime True "''2024-01-01''" "Fin 72" "startPPGScan True 0 sample_world"
            20001 "Fin (1 / 2)"]
    by (simp add: w)
qed

text \<open>
  C4. The claim holds for the manual-stop screen: a status 200 answer whose body has no
  \<open>bpm\<close> ends with the error "No BPM data in response" and its alert (lemma
  \<open>missing_bpm_reported\<close>; for the body \<open>null\<close> the read of \<open>data.bpm\<close> throws and the
  same \<open>catch\<close> reports the engine's message, lemma \<open>null_body_reported\<close>). But
  src/screens/PulseScanScreen.js stores \<open>data.bpm\<close> unchecked: for the answer \<open>{}\<close> with
  status 200 it raises nothing, shows no alert, leaves \<open>bpm\<close> undefined, and since
  \<open>undefined !== null\<close> the result block is shown with the text \<open>" BPM"\<close>.
\<close>

theorem missing_bpm_unchecked_scr:
  "startMeasurement_scr rt True
      \<lparr>camera = Resolved (Some ''file:///cache/clip.mp4''),
       fetched = Resolved \<lparr>resp_status = 200, resp_json = Resolved (JObj [])\<rparr>\<rparr>
      initial_scr
    = Done \<lparr>isRecording = False, bpm = Undefined, error = None\<rparr>
        [RecordAsync (Some 8) True ''480p'', upload_request_scr ''file:///cache/clip.mp4'']
   \<and> result_block_scr rt \<lparr>isRecording = False, bpm = Undefined, error = None\<rparr>
       = Some (ResultCard '' BPM'')
   \<and> error_block_scr \<lparr>isRecording = False, bpm = Undefined, error = None\<rparr> = None"
  by (simp add: startMeasurement_scr_def uploadVideoAndGetBpm_scr_def initial_scr_def ok_def
        Let_def result_block_scr_def error_block_scr_def MEASUREMENT_DURATION_SECONDS_def)

text \<open>
  C9. In the upload handler of the manual-stop screen an answer with status 200 whose
  \<open>bpm\<close> is the number 0 is treated exactly as an answer without \<open>bpm\<close>: the
  measurement ends in the same state with the same calls, the error is
  "No BPM data in response", \<open>bpm\<close> stays null, and the card offers a new start with the
  error below it instead of a result.
\<close>

theorem zero_bpm_is_missing_bpm:
  assumes "recording env = Resolved (Some uri)" and "uri \<noteq> []"
    and "fileInfo env = Resolved fi" and "exists fi"
    and "upload env = Resolved r" and "status r = 200" and "json r = Some data"
    and "get_prop data ''bpm'' = Some (JNum (Fin 0))"
    and "\<not> isRecording s"
  shows "startMeasurement rt True env s
           = startMeasurement rt True (env\<lparr>upload := Resolved (r\<lparr>json := Some (JObj [])\<rparr>)\<rparr>) s
       \<and> is_Done (startMeasurement rt True env s)
       \<and> bpm (final_state (startMeasurement rt True env s)) = Null
       \<and> error (final_state (startMeasurement rt True env s)) = Some ''No BPM data in response''
       \<and> last (effects (startMeasurement rt True env s)) = Alert ''Error'' ''No BPM data in response''
       \<and> card rt (final_state (startMeasurement rt True env s)) = StartCard
       \<and> error_block (final_state (startMeasurement rt True env s))
           = Some ''Error: No BPM data in response''"
proof -
  let ?env' = "env\<lparr>upload := Resolved (r\<lparr>json := Some (JObj [])\<rparr>)\<rparr>"
  have t: "\<not> truthy (JNum (Fin 0))" "\<not> truthy Undefined" by simp_all
  obtain es where 1: "startMeasurement rt True env s =
           Done \<lparr>isRecording = False, bpm = Null, error = Some ''No BPM data in response'',
                 isProcessing = False, uploadProgress = [], showCamera = False\<rparr>
                (es @ [Alert ''Error'' ''No BPM data in response''])"
    using failed_run [OF assms(1-8) t(1) assms(9)] by blast
  have 2: "startMeasurement rt True ?env' s = startMeasurement rt True env s"
    using assms
    by (simp add: startMeasurement_def uploadVideoAndGetBpm_def handle_response_def Let_def)
  show ?thesis
    by (simp add: 1 2 card_def error_block_def)
qed

text \<open>An instance: the answer \<open>{"bpm": 0}\<close>.\<close>

theorem zero_bpm_is_missing_bpm_witness:
  "startMeasurement sample_runtime True (sample_env\<lparr>upload := Resolved zero_bpm_result\<rparr>)
      initial_screen
    = startMeasurement sample_runtime True
        (sample_env\<lparr>upload := Resolved zero_bpm_result,
                     upload := Resolved (zero_bpm_result\<lparr>json := Some (JObj [])\<rparr>)\<rparr>)
        initial_screen
   \<and> error (final_state (startMeasurement sample_runtime True
         (sample_env\<lparr>upload := Resolved zero_bpm_result\<rparr>) initial_screen))
       = Some ''No BPM data in response''
   \<and> card sample_runtime (final_state (startMeasurement sample_runtime True
         (sample_env\<lparr>upload := Resolved zero_bpm_result\<rparr>) initial_screen))
       = StartCard"
proof -
  have "recording (sample_env\<lparr>upload := Resolved zero_bpm_result\<rparr>)
          = Resolved (Some ''file:///cache/clip.mp4'')"
    and "''file:///cache/clip.mp4'' \<noteq> []"
    and "fileInfo (sample_env\<lparr>upload := Resolved zero_bpm_result\<rparr>)
          = Resolved \<lparr>exists = True, size_bytes = 1048576\<rparr>"
    and "exists \<lparr>exists = True, size_bytes = 1048576\<rparr>"
    and "upload (sample_env\<lparr>upload := Resolved zero_bpm_result\<rparr>) = Resolved zero_bpm_result"
    and "status zero_bpm_result = 200"
    and "json zero_bpm_result = Some (JObj [(''bpm'', JNum (Fin 0))])"
    and "get_prop (JObj [(''bpm'', JNum (Fin 0))]) ''bpm'' = Some (JNum (Fin 0))"
    and "\<not> isRecording initial_screen"
    by (simp_all add: sample_env_def zero_bpm_result_def initial_screen_def)
  from zero_bpm_is_missing_bpm [OF this, of sample_runtime] show ?thesis
    by blast
qed

text \<open>
  C5, as the claim states it, fails: the upload handler of the manual-stop screen does not
  check that the file is non-empty, and it names no MIME type. For a file that exists with
  size 0 it goes on to upload it; the options of the upload call carry the field name, the
  method and the multipart type only.
\<close>

theorem empty_file_is_uploaded:
  "effects (uploadVideoAndGetBpm sample_runtime
      (sample_env\<lparr>fileInfo := Resolved \<lparr>exists = True, size_bytes = 0\<rparr>\<rparr>)
      ''file:///cache/clip.mp4'' initial_screen [])
    = [GetInfoAsync ''file:///cache/clip.mp4'',
       UploadAsync API_URL ''file:///cache/clip.mp4''
         \<lparr>fieldName = ''file'', httpMethod = ''POST'', uploadType = MULTIPART, mimeType = None\<rparr>,
       Alert ''Success!'' ''Your heart rate is 72 BPM'']"
  by (simp add: uploadVideoAndGetBpm_def handle_response_def sample_env_def Let_def
        pulse_upload_options_def Number_toString_def digits_72)

text \<open>
  C5, amended. The upload handler of the manual-stop screen (part_004) first asks for the
  file's info. When the file does not exist it makes no network call and reports
  "Video file not found"; when the info call fails or stays unsettled it makes no network
  call either. When the file exists, whatever its size, it makes exactly one network call:
  a multipart POST of the file to the fixed analysis endpoint with the field name \<open>file\<close>
  and no MIME type of its own. The upload handler of src/screens/PulseScanScreen.js makes
  no check of the file: its first and only network call is a POST to the same endpoint whose
  form data has the single part \<open>file\<close> with the type \<open>video/mp4\<close>.
\<close>

theorem upload_request_shape:
  "(fileInfo env = Resolved fi \<longrightarrow> \<not> exists fi \<longrightarrow>
      effects (uploadVideoAndGetBpm rt env uri s [])
        = [GetInfoAsync uri, Alert ''Error'' ''Video file not found'']
      \<and> error (final_state (uploadVideoAndGetBpm rt env uri s [])) = Some ''Video file not found'')
   \<and> (fileInfo env = Resolved fi \<longrightarrow> exists fi \<longrightarrow>
      take 2 (effects (uploadVideoAndGetBpm rt env uri s []))
        = [GetInfoAsync uri,
           UploadAsync API_URL uri
             \<lparr>fieldName = ''file'', httpMethod = ''POST'', uploadType = MULTIPART,
              mimeType = None\<rparr>]
      \<and> length (filter is_network (effects (uploadVideoAndGetBpm rt env uri s []))) = 1)
   \<and> (fileInfo env = Unsettled \<or> fileInfo env = Rejected m \<longrightarrow>
      filter is_network (effects (uploadVideoAndGetBpm rt env uri s [])) = [])
   \<and> take 1 (effects (uploadVideoAndGetBpm_scr rt fenv uri x []))
        = [Fetch API_URL
            \<lparr>fetch_method = ''POST'',
             headers = [(''Content-Type'', ''multipart/form-data'')],
             form_data = [(''file'',
               \<lparr>file_uri = uri,
                file_name = (if last_segment uri = [] then ''ppg_video.mp4'' else last_segment uri),
                file_type = ''video/mp4''\<rparr>)],
             json_body = None,
             abort_after_ms = None\<rparr>]
   \<and> length (filter is_network (effects (uploadVideoAndGetBpm_scr rt fenv uri x []))) = 1
   \<and> API_URL = ''https://hrmppgbackend.onrender.com/analyze_ppg_video''"
  using upload_effects_missing_file [of env fi rt uri s]
    upload_effects_existing_file [of env fi rt uri s]
    upload_effects_no_file_info [of env m rt uri s]
    upload_scr_effects [of rt fenv uri x]
  by (simp add: pulse_upload_options_def upload_request_scr_def Let_def API_URL_def)

text \<open>An instance: a missing file, and the sample file.\<close>

theorem upload_request_shape_witness:
  "effects (uploadVideoAndGetBpm sample_runtime
      (sample_env\<lparr>fileInfo := Resolved \<lparr>exists = False, size_bytes = 0\<rparr>\<rparr>)
      ''file:///cache/clip.mp4'' initial_screen [])
    = [GetInfoAsync ''file:///cache/clip.mp4'', Alert ''Error'' ''Video file not found'']
   \<and> length (filter is_network (effects (uploadVideoAndGetBpm sample_runtime sample_env
         ''file:///cache/clip.mp4'' initial_screen []))) = 1"
  using upload_request_shape [THEN conjunct1,
      of "sample_env\<lparr>fileInfo := Resolved \<lparr>exists = False, size_bytes = 0\<rparr>\<rparr>"
         "\<lparr>exists = False, size_bytes = 0\<rparr>" sample_runtime "''file:///cache/clip.mp4''"
         initial_screen]
    upload_request_shape [THEN conjunct2, THEN conjunct1,
      of sample_env "\<lparr>exists = True, size_bytes = 1048576\<rparr>" sample_runtime
         "''file:///cache/clip.mp4''" initial_screen]
  by (simp add: sample_env_def)

text \<open>
  C6, as the claim states it, fails: the upload of the pulse scanner has no timeout. When
  the upload call never settles, the measurement never ends: the screen stays in
  processing, with no error.
\<close>

theorem upload_has_no_timeout:
  "\<not> is_Done (startMeasurement sample_runtime True (sample_env\<lparr>upload := Unsettled\<rparr>)
              initial_screen)
   \<and> error (final_state (startMeasurement sample_runtime True
         (sample_env\<lparr>upload := Unsettled\<rparr>) initial_screen)) = None
   \<and> isProcessing (final_state (startMeasurement sample_runtime True
         (sample_env\<lparr>upload := Unsettled\<rparr>) initial_screen))"
  by (simp add: startMeasurement_def uploadVideoAndGetBpm_def sample_env_def initial_screen_def
        Let_def)

text \<open>
  C6, amended. Only the chat screen bounds its network call: its request carries a timer
  that aborts it after 50000 ms, and when the request has not settled by then
  \<open>sendMessage\<close> ends with the assistant message "Failed to connect to the bot." and
  \<open>loading\<close> false, exactly as it does for any other failure of the request (no timeout
  kind is recorded). The timer covers the request only: once the response has arrived in
  time, reading its body is awaited without a bound. The upload handlers of the three pulse
  scanners set no timeout: while the upload call is unsettled they stay suspended, the
  manual-stop one with \<open>isProcessing\<close> unchanged and no error.
\<close>

theorem only_chat_fetch_is_bounded:
  "(trim (input cs) \<noteq> [] \<longrightarrow> \<not> loading cs \<longrightarrow> aborted cenv \<longrightarrow>
      sendMessage cenv cs =
        Done \<lparr>input = [],
              messages = messages cs @
                [\<lparr>role = ''user'', content = JStr (input cs)\<rparr>,
                 \<lparr>role = ''assistant'',
                  content = JStr (warning_sign @ '' Failed to connect to the bot.'')\<rparr>],
              loading = False\<rparr>
          [chat_request (messages cs @ [\<lparr>role = ''user'', content = JStr (input cs)\<rparr>])])
   \<and> (trim (input cs) \<noteq> [] \<longrightarrow> \<not> loading cs \<longrightarrow> chat_fetched cenv = Rejected m \<longrightarrow>
      sendMessage cenv cs = sendMessage \<lparr>chat_fetched = Unsettled, settles_at = 0\<rparr> cs)
   \<and> (aborted cenv \<longleftrightarrow> chat_fetched cenv = Unsettled \<or> 50000 \<le> settles_at cenv)
   \<and> (\<exists>init. chat_request ms = Fetch CHAT_URL init \<and> abort_after_ms init = Some 50000)
   \<and> (trim (input cs) \<noteq> [] \<longrightarrow> \<not> loading cs \<longrightarrow> \<not> aborted cenv \<longrightarrow>
      chat_fetched cenv = Resolved res \<longrightarrow> ok res \<longrightarrow> resp_json res = Unsettled \<longrightarrow>
      \<not> is_Done (sendMessage cenv cs))
   \<and> (fileInfo env = Resolved fi \<longrightarrow> exists fi \<longrightarrow> upload env = Unsettled \<longrightarrow>
      \<not> is_Done (uploadVideoAndGetBpm rt env uri s es)
      \<and> error (final_state (uploadVideoAndGetBpm rt env uri s es)) = None
      \<and> isProcessing (final_state (uploadVideoAndGetBpm rt env uri s es)) = isProcessing s)
   \<and> (fetched fenv = Unsettled \<longrightarrow> \<not> is_Done (uploadVideoAndGetBpm_scr rt fenv uri x es))
   \<and> (scan_fetched senv = Unsettled \<longrightarrow> \<not> is_Done (uploadVideo rt senv uri z es))"
  using chat_aborted [of cs cenv] chat_failure_is_generic [of cs cenv m]
    chat_body_unbounded(1) [of cs cenv res] upload_unsettled [of env fi rt uri s es]
    fetch_unsettled_scr [of fenv rt uri x es] fetch_unsettled_scan [of senv rt uri z es]
  by (simp add: aborted_def chat_request_def)

text \<open>An instance: a chat request that never settles.\<close>

theorem only_chat_fetch_is_bounded_witness:
  "sendMessage \<lparr>chat_fetched = Unsettled, settles_at = 0\<rparr>
      \<lparr>input = ''hello'', messages = [], loading = False\<rparr>
    = Done \<lparr>input = [],
            messages =
              [\<lparr>role = ''user'', content = JStr ''hello''\<rparr>,
               \<lparr>role = ''assistant'',
                content = JStr (warning_sign @ '' Failed to connect to the bot.'')\<rparr>],
            loading = False\<rparr>
        [chat_request [\<lparr>role = ''user'', content = JStr ''hello''\<rparr>]]"
  using only_chat_fetch_is_bounded [THEN conjunct1,
      of "\<lparr>input = ''hello'', messages = [], loading = False\<rparr>"
         "\<lparr>chat_fetched = Unsettled, settles_at = 0\<rparr>"]
  by (simp add: trim_def js_whitespace_def aborted_def)

text \<open>
  C10, as the claim states it, fails for arbitrary strings: a run of more than 308 digits
  parses to \<open>Infinity\<close>, which \<open>isNaN\<close> lets through, and the sum of \<open>Infinity\<close> and
  \<open>-Infinity\<close> is \<open>NaN\<close>. For two foods whose \<open>carbs\<close> are 400 nines and minus 400
  nines, the total of \<open>carbs\<close> is printed as \<open>NaNg\<close>.
\<close>

theorem totals_can_be_NaN:
  "computeTotals sample_runtime
     [JObj [(''carbs'', JStr long_digits)], JObj [(''carbs'', JStr (CHR ''-'' # long_digits))]]
   = Some \<lparr>carbs = ''NaNg'', fat = ''0.00g'', fiber = ''0.00g'', protein = ''0.00g''\<rparr>"
proof -
  have p: "parseGrams sample_runtime (JStr long_digits) = PInf"
    "parseGrams sample_runtime (JStr (CHR ''-'' # long_digits)) = NInf"
    by (simp_all add: parseGrams_def long_digits_facts isNaN_def)
  have r0: "round64 0 = Fin 0" by (simp add: round64_def)
  show ?thesis
    by (simp add: computeTotals_def add_food_def zero_totals_def p parseGrams_absent r0
          fmt_zero fmt_NaN)
qed

text \<open>
  C10, amended. \<open>parseGrams\<close> never returns \<open>NaN\<close>: a value whose cleaned text does not
  parse, and an absent, null or empty field, give 0; and it returns a finite number whenever
  the cleaned text has at most 300 characters. For every foods array without a null element
  \<open>computeTotals\<close> returns four texts, each the \<open>toFixed(2)\<close> print of the running sum
  followed by \<open>g\<close>. When every nutrient field of every food parses to a finite number, no
  total is \<open>NaN\<close>; and a total that is finite with magnitude below \<open>10^21\<close> is printed
  as an optional minus sign, at least one digit, a point, exactly two digits, and \<open>g\<close>.
\<close>

theorem totals_without_NaN_for_finite_fields:
  "parseGrams rt v \<noteq> NaN
   \<and> (parseFloat (keep_numeric (ToString rt v)) = NaN \<longrightarrow> parseGrams rt v = Fin 0)
   \<and> parseGrams rt Undefined = Fin 0 \<and> parseGrams rt Null = Fin 0
   \<and> parseGrams rt (JStr []) = Fin 0
   \<and> (length (keep_numeric (ToString rt v)) \<le> 300 \<longrightarrow> finite_number (parseGrams rt v))
   \<and> (Null \<notin> set foods \<longrightarrow> Undefined \<notin> set foods \<longrightarrow> (\<exists>r. computeTotals rt foods = Some r))
   \<and> (list_all (finite_fields rt) foods \<longrightarrow>
        (\<exists>t. sum_foods rt zero_totals foods = Some t \<and> no_NaN t))
   \<and> (computeTotals rt foods = Some r \<longrightarrow>
        (\<exists>t. sum_foods rt zero_totals foods = Some t
           \<and> r = \<lparr>carbs = fmt rt (carbs t), fat = fmt rt (fat t),
                   fiber = fmt rt (fiber t), protein = fmt rt (protein t)\<rparr>))
   \<and> (\<bar>q\<bar> < 10 ^ 21 \<longrightarrow>
        (\<exists>ip d1 d2. fmt rt (Fin q)
            = (if q < 0 then ''-'' else []) @ ip @ [CHR ''.'', d1, d2, CHR ''g'']
          \<and> ip \<noteq> [] \<and> list_all is_digit (ip @ [d1, d2])))"
proof -
  have z: "no_NaN zero_totals" by (simp add: no_NaN_def zero_totals_def)
  have tot: "Null \<notin> set foods \<Longrightarrow> Undefined \<notin> set foods \<Longrightarrow> \<exists>r. computeTotals rt foods = Some r"
    using sum_foods_total [of foods rt zero_totals] by (auto simp: computeTotals_def)
  have shape: "computeTotals rt foods = Some r \<Longrightarrow>
        \<exists>t. sum_foods rt zero_totals foods = Some t
           \<and> r = \<lparr>carbs = fmt rt (carbs t), fat = fmt rt (fat t),
                   fiber = fmt rt (fiber t), protein = fmt rt (protein t)\<rparr>"
    by (auto simp: computeTotals_def split: option.splits)
  show ?thesis
    using parseGrams_not_NaN [of rt v] parseGrams_unparsable [of rt v] parseGrams_absent [of rt]
      parseGrams_finite [of rt v] tot sum_foods_no_NaN [OF z, of rt foods] shape
      fmt_two_decimals [of q rt]
    by blast
qed

text \<open>An instance: a field with a unit, and a food given by a text and a number.\<close>

theorem totals_without_NaN_for_finite_fields_witness:
  "finite_number (parseGrams sample_runtime (JStr ''12.5 g''))
   \<and> (\<exists>r. computeTotals sample_runtime
          [JObj [(''carbs'', JStr ''12.5 g''), (''fat'', JNum (Fin 3))]] = Some r)"
  using totals_without_NaN_for_finite_fields [of sample_runtime "JStr ''12.5 g''"
      "[JObj [(''carbs'', JStr ''12.5 g''), (''fat'', JNum (Fin 3))]]"
      "\<lparr>carbs = [], fat = [], fiber = [], protein = []\<rparr>" 0]
  by (simp add: keep_numeric_def)

end
